theory Spec2Isabelle
  imports Complex_Main "HOL-Library.Multiset"
begin

section \<open>Aggregation: the per-shape merge\<close>

text \<open>
  The statistics of \<^verbatim>\<open>stats/analytics.py\<close> declare their result shape with the decorators
  \<^verbatim>\<open>returns_number\<close>, \<^verbatim>\<open>returns_numberdict\<close>, \<^verbatim>\<open>returns_numberdictdict\<close> and
  \<^verbatim>\<open>returns_numberdictdictdict\<close>. The decorators and the aggregation loop that merges the
  results live in \<^verbatim>\<open>stats/common\<close> and in the runner, which are missing from the sources.
\<close>

datatype shape = ShNumber | ShCounter1 | ShCounter2 | ShCounter3

type_synonym counter1 = "string \<rightharpoonup> rat"
type_synonym counter2 = "string \<rightharpoonup> counter1"
type_synonym counter3 = "string \<rightharpoonup> counter2"

datatype stat_result =
    Number rat
  | Counter1 counter1
  | Counter2 counter2
  | Counter3 counter3

fun shape_of :: "stat_result \<Rightarrow> shape" where
  "shape_of (Number _) = ShNumber"
| "shape_of (Counter1 _) = ShCounter1"
| "shape_of (Counter2 _) = ShCounter2"
| "shape_of (Counter3 _) = ShCounter3"

text \<open>
  Modelled from the spec: the merge function of the aggregator (section 4.1), whose code is
  missing from the sources. \<^verbatim>\<open>Number\<close>: arithmetic sum.
\<close>
definition merge_number :: "rat \<Rightarrow> rat \<Rightarrow> rat" where
  "merge_number a b = a + b"

text \<open>
  Modelled from the spec: the \<^verbatim>\<open>Counter1\<close> rule of the aggregator (section 4.1), whose code is
  missing from the sources: union of keys, combining the values of the keys present in both. The
  combination of the values is the parameter \<open>f\<close>, so that the same rule serves each nesting
  level.
\<close>
definition merge_counter ::
  "('v \<Rightarrow> 'v \<Rightarrow> 'v) \<Rightarrow> ('k \<rightharpoonup> 'v) \<Rightarrow> ('k \<rightharpoonup> 'v) \<Rightarrow> ('k \<rightharpoonup> 'v)" where
  "merge_counter f a b =
     (\<lambda>k. case a k of
            None \<Rightarrow> b k
          | Some x \<Rightarrow> (case b k of None \<Rightarrow> Some x | Some y \<Rightarrow> Some (f x y)))"

text \<open>
  Modelled from the spec: the merge of two shaped values (section 4.1), whose code is missing
  from the sources. \<^verbatim>\<open>Counter2\<close> and \<^verbatim>\<open>Counter3\<close> apply the \<^verbatim>\<open>Counter1\<close> rule at each nesting level.
  The contract covers two values of the same shape only: on two shapes the model has no
  result (\<open>None\<close>).
\<close>
fun merge :: "stat_result \<Rightarrow> stat_result \<Rightarrow> stat_result option" where
  "merge (Number a) (Number b) = Some (Number (merge_number a b))"
| "merge (Counter1 a) (Counter1 b) = Some (Counter1 (merge_counter merge_number a b))"
| "merge (Counter2 a) (Counter2 b) =
     Some (Counter2 (merge_counter (merge_counter merge_number) a b))"
| "merge (Counter3 a) (Counter3 b) =
     Some (Counter3 (merge_counter (merge_counter (merge_counter merge_number)) a b))"
| "merge _ _ = None"

text \<open>
  Modelled from the spec: the identity value of a shape (section 4.1, "Folding over an empty
  sequence returns the shape's identity value (0, or empty mapping at the appropriate
  depth)"); the code is missing from the sources.
\<close>
fun identity_value :: "shape \<Rightarrow> stat_result" where
  "identity_value ShNumber = Number 0"
| "identity_value ShCounter1 = Counter1 Map.empty"
| "identity_value ShCounter2 = Counter2 Map.empty"
| "identity_value ShCounter3 = Counter3 Map.empty"

text \<open>
  Modelled from the spec: the merge of two partial results of the aggregator, whose code is
  missing from the sources; a failure on either side is a failure of the whole.
\<close>
fun merge_opt :: "stat_result option \<Rightarrow> stat_result option \<Rightarrow> stat_result option" where
  "merge_opt (Some a) (Some b) = merge a b"
| "merge_opt _ _ = None"

text \<open>
  Modelled from the spec: \<^verbatim>\<open>fold(shape, sequence)\<close> (section 6), the sequential left fold from
  the shape's identity value; the code is missing from the sources.
\<close>
definition fold_sequential :: "shape \<Rightarrow> stat_result list \<Rightarrow> stat_result option" where
  "fold_sequential s xs = foldl (\<lambda>acc x. merge_opt acc (Some x)) (Some (identity_value s)) xs"

text \<open>
  Modelled from the spec: the parallel tree-reduce of the aggregator (section 5, "pairwise
  merges combined hierarchically"), whose code is missing from the sources. A grouping of a
  non-empty sequence is a binary tree whose leaves are the values, merged pairwise bottom-up.
\<close>
datatype 'a grouping = Single 'a | Pair "'a grouping" "'a grouping"

fun leaves :: "'a grouping \<Rightarrow> 'a list" where
  "leaves (Single x) = [x]"
| "leaves (Pair l r) = leaves l @ leaves r"

fun tree_reduce :: "stat_result grouping \<Rightarrow> stat_result option" where
  "tree_reduce (Single x) = Some x"
| "tree_reduce (Pair l r) = merge_opt (tree_reduce l) (tree_reduce r)"

section \<open>Python values: errors, floats and decimals\<close>

text \<open>The exceptions the modelled code can raise. A raise is the result \<open>Inl e\<close>.\<close>
datatype py_error =
    KeyError
  | ZeroDivisionError
  | ValueError
  | InvalidOperation
  | DecimalOverflow

datatype sign = Plus | Minus

fun sign_of :: "rat \<Rightarrow> sign" where
  "sign_of r = (if r < 0 then Minus else Plus)"

fun signed :: "sign \<Rightarrow> rat \<Rightarrow> rat" where
  "signed Plus r = r"
| "signed Minus r = - r"

fun sign_mul :: "sign \<Rightarrow> sign \<Rightarrow> sign" where
  "sign_mul Plus s = s"
| "sign_mul Minus Plus = Minus"
| "sign_mul Minus Minus = Plus"

text \<open>
  A Python \<^verbatim>\<open>float\<close> is an IEEE 754 binary64 value: a finite double (given by its rational
  value; the sign of a zero is not kept, nothing below observes it), an infinity or NaN.
  A \<^verbatim>\<open>decimal.Decimal\<close> is a finite decimal (given by its rational value), an infinity, a
  quiet NaN or a signalling NaN.
\<close>
datatype pyfloat = Flt rat | FltInf sign | FltNaN

datatype pydecimal = Dec rat | DecInf sign | DecNaN | DecSNaN

definition pow_int :: "rat \<Rightarrow> int \<Rightarrow> rat" where
  "pow_int b e = (if 0 \<le> e then b ^ nat e else 1 / b ^ nat (- e))"

text \<open>Rounding to the nearest integer, ties to the even one.\<close>
definition round_half_even :: "rat \<Rightarrow> int" where
  "round_half_even x =
     (let f = \<lfloor>x\<rfloor>; d = x - of_int f
      in if d < 1 / 2 then f
         else if 1 / 2 < d then f + 1
         else if even f then f else f + 1)"

text \<open>The number of digits of a positive integer \<open>n\<close> in base \<open>b\<close>.\<close>
function num_digits :: "int \<Rightarrow> int \<Rightarrow> int" where
  "num_digits b n = (if 1 < b \<and> 0 < n then 1 + num_digits b (n div b) else 0)"
  by pat_completeness auto
termination
proof (relation "measure (\<lambda>(b, n). nat n)")
  show "wf (measure (\<lambda>(b, n). nat n))" by simp
next
  fix b n :: int
  assume "1 < b \<and> 0 < n"
  then have "n div b < n" by (simp add: int_div_less_self)
  with \<open>1 < b \<and> 0 < n\<close> show "((b, n div b), (b, n)) \<in> measure (\<lambda>(b, n). nat n)"
    by simp
qed

declare num_digits.simps [simp del]

text \<open>
  \<open>floor_log b r\<close> is the integer \<open>e\<close> with \<open>b ^ e \<le> r < b ^ (e + 1)\<close>, for \<open>r > 0\<close> and
  \<open>b \<ge> 2\<close>: the numbers of digits of the numerator and of the denominator leave two candidates.
\<close>
definition floor_log :: "int \<Rightarrow> rat \<Rightarrow> int" where
  "floor_log b r =
     (let (p, q) = quotient_of r;
          e = num_digits b p - num_digits b q
      in if pow_int (of_int b) e \<le> r then e else e - 1)"

text \<open>
  The double nearest to a rational (round to nearest, ties to even): 53 significant bits in
  the normal range, multiples of \<open>2 ^ - 1074\<close> below it, and an infinity where the rounded
  value \<open>m * 2 ^ q\<close> reaches \<open>2 ^ 1024\<close> (its binary length \<open>q + num_digits 2 m\<close> exceeds 1024).
\<close>
definition round_double :: "rat \<Rightarrow> pyfloat" where
  "round_double r =
     (if r = 0 then Flt 0
      else
        let a = \<bar>r\<bar>;
            e = floor_log 2 a;
            q = (if e < - 1022 then - 1074 else e - 52);
            m = round_half_even (a / pow_int 2 q)
        in if 1024 < q + num_digits 2 m then FltInf (sign_of r)
           else Flt (signed (sign_of r) (of_int m * pow_int 2 q)))"

text \<open>\<^verbatim>\<open>1 / x\<close> on floats, as Python evaluates it: a zero divisor raises.\<close>
fun float_inverse :: "pyfloat \<Rightarrow> py_error + pyfloat" where
  "float_inverse (Flt r) = (if r = 0 then Inl ZeroDivisionError else Inr (round_double (1 / r)))"
| "float_inverse (FltInf _) = Inr (Flt 0)"
| "float_inverse FltNaN = Inr FltNaN"

text \<open>\<^verbatim>\<open>x * y\<close> on floats.\<close>
fun float_mul :: "pyfloat \<Rightarrow> pyfloat \<Rightarrow> pyfloat" where
  "float_mul (Flt a) (Flt b) = round_double (a * b)"
| "float_mul (Flt a) (FltInf s) = (if a = 0 then FltNaN else FltInf (sign_mul (sign_of a) s))"
| "float_mul (FltInf s) (Flt b) = (if b = 0 then FltNaN else FltInf (sign_mul s (sign_of b)))"
| "float_mul (FltInf s) (FltInf t) = FltInf (sign_mul s t)"
| "float_mul FltNaN _ = FltNaN"
| "float_mul _ FltNaN = FltNaN"

text \<open>
  \<^verbatim>\<open>float(d)\<close> for a Decimal \<open>d\<close>: the nearest double; a signalling NaN raises
  \<^verbatim>\<open>ValueError\<close>.
\<close>
fun float_of_decimal :: "pydecimal \<Rightarrow> py_error + pyfloat" where
  "float_of_decimal (Dec r) = Inr (round_double r)"
| "float_of_decimal (DecInf s) = Inr (FltInf s)"
| "float_of_decimal DecNaN = Inr FltNaN"
| "float_of_decimal DecSNaN = Inl ValueError"

text \<open>\<^verbatim>\<open>Decimal(x)\<close> for a float \<open>x\<close>: exact.\<close>
fun Decimal_of_float :: "pyfloat \<Rightarrow> pydecimal" where
  "Decimal_of_float (Flt r) = Dec r"
| "Decimal_of_float (FltInf s) = DecInf s"
| "Decimal_of_float FltNaN = DecNaN"

text \<open>
  The default context of the \<^verbatim>\<open>decimal\<close> module: 28 significant digits, rounding half to
  even, exponents from \<open>- 999999\<close> to \<open>999999\<close>, and the signals \<^verbatim>\<open>InvalidOperation\<close> and
  \<^verbatim>\<open>Overflow\<close> trapped (raised as exceptions). The result of an arithmetic operation is
  rounded to it.
\<close>
definition decimal_fix :: "rat \<Rightarrow> py_error + pydecimal" where
  "decimal_fix r =
     (if r = 0 then Inr (Dec 0)
      else
        let a = \<bar>r\<bar>;
            e = floor_log 10 a;
            q = (if e < - 999999 then - 1000026 else e - 27);
            m = round_half_even (a / pow_int 10 q)
        in if 1000000 < q + num_digits 10 m then Inl DecimalOverflow
           else Inr (Dec (signed (sign_of r) (of_int m * pow_int 10 q))))"

text \<open>\<^verbatim>\<open>a + b\<close> on Decimals, in the default context.\<close>
fun decimal_add :: "pydecimal \<Rightarrow> pydecimal \<Rightarrow> py_error + pydecimal" where
  "decimal_add DecSNaN _ = Inl InvalidOperation"
| "decimal_add _ DecSNaN = Inl InvalidOperation"
| "decimal_add DecNaN _ = Inr DecNaN"
| "decimal_add _ DecNaN = Inr DecNaN"
| "decimal_add (DecInf s) (DecInf t) = (if s = t then Inr (DecInf s) else Inl InvalidOperation)"
| "decimal_add (DecInf s) (Dec _) = Inr (DecInf s)"
| "decimal_add (Dec _) (DecInf t) = Inr (DecInf t)"
| "decimal_add (Dec a) (Dec b) = decimal_fix (a + b)"

section \<open>Reading a Decimal from text\<close>

text \<open>
  \<^verbatim>\<open>Decimal(s)\<close> for a string \<open>s\<close>, as the C implementation of the \<^verbatim>\<open>decimal\<close> module reads it
  on a 64-bit platform. A character is a code point below 256. Surrounding whitespace is
  stripped and underscores are dropped; what is left is an optional sign followed by digits
  with an optional point and an optional exponent, by \<^verbatim>\<open>Inf\<close> or \<^verbatim>\<open>Infinity\<close>, or by \<^verbatim>\<open>NaN\<close> or
  \<^verbatim>\<open>sNaN\<close> with optional digits, letters in either case. The conversion is exact, within the
  largest context of the module: a number whose exponent is below \<open>- 1999999999999999997\<close> or
  whose adjusted exponent is above \<open>999999999999999999\<close> is refused. Any refused string
  raises \<^verbatim>\<open>InvalidOperation\<close>: the result \<open>None\<close>.
\<close>

text \<open>
  The whitespace that Python strips, among the code points below 256: the ASCII controls 9
  to 13 and 28 to 31, the space, the next-line control 133 and the no-break space 160.
\<close>
definition is_space :: "char \<Rightarrow> bool" where
  "is_space c \<longleftrightarrow> (of_char c :: nat) \<in> {9, 10, 11, 12, 13, 28, 29, 30, 31, 32, 133, 160}"

definition strip :: "string \<Rightarrow> string" where
  "strip s = rev (dropWhile is_space (rev (dropWhile is_space s)))"

definition is_digit :: "char \<Rightarrow> bool" where
  "is_digit c \<longleftrightarrow> c \<in> set ''0123456789''"

definition digit_value :: "char \<Rightarrow> int" where
  "digit_value c = int (of_char c) - 48"

definition digits_value :: "string \<Rightarrow> int" where
  "digits_value ds = foldl (\<lambda>n c. 10 * n + digit_value c) 0 ds"

definition lower :: "char \<Rightarrow> char" where
  "lower c =
     (case map_of (zip ''ABCDEFGHIJKLMNOPQRSTUVWXYZ'' ''abcdefghijklmnopqrstuvwxyz'') c of
        None \<Rightarrow> c
      | Some l \<Rightarrow> l)"

definition split_sign :: "string \<Rightarrow> sign \<times> string" where
  "split_sign s =
     (case s of
        [] \<Rightarrow> (Plus, [])
      | c # r \<Rightarrow> if c = CHR ''-'' then (Minus, r) else if c = CHR ''+'' then (Plus, r) else (Plus, s))"

text \<open>The exponent part: empty, or \<^verbatim>\<open>e\<close>, an optional sign and at least one digit.\<close>
definition exponent_part :: "string \<Rightarrow> int option" where
  "exponent_part s =
     (case s of
        [] \<Rightarrow> Some 0
      | c # r \<Rightarrow>
          if c = CHR ''e'' then
            (let (sg, ds) = split_sign r
             in if ds \<noteq> [] \<and> list_all is_digit ds
                then Some (case sg of Plus \<Rightarrow> digits_value ds | Minus \<Rightarrow> - digits_value ds)
                else None)
          else None)"

text \<open>
  The limits of an exact conversion: the smallest exponent and the largest adjusted exponent
  (the exponent of the leading digit of the coefficient; a zero coefficient has one digit).
\<close>
definition MIN_ETINY :: int where
  "MIN_ETINY = - 1999999999999999997"

definition MAX_EMAX :: int where
  "MAX_EMAX = 999999999999999999"

definition finite_part :: "sign \<Rightarrow> string \<Rightarrow> pydecimal option" where
  "finite_part sg s =
     (let ip = takeWhile is_digit s;
          r1 = dropWhile is_digit s;
          (fp, r2) = (case r1 of
                        [] \<Rightarrow> ([], [])
                      | c # r \<Rightarrow> if c = CHR ''.'' then (takeWhile is_digit r, dropWhile is_digit r)
                                 else ([], r1))
      in if ip = [] \<and> fp = [] then None
         else (case exponent_part r2 of
                 None \<Rightarrow> None
               | Some e \<Rightarrow>
                   (let coefficient = digits_value (ip @ fp);
                        exponent = e - int (length fp);
                        digits = (if coefficient = 0 then 1 else num_digits 10 coefficient)
                    in if MIN_ETINY \<le> exponent \<and> exponent + digits - 1 \<le> MAX_EMAX
                       then Some (Dec (signed sg (of_int coefficient * pow_int 10 exponent)))
                       else None)))"

definition Decimal_of_string :: "string \<Rightarrow> pydecimal option" where
  "Decimal_of_string str =
     (let (sg, body) = split_sign (filter (\<lambda>c. c \<noteq> CHR ''_'') (strip str));
          lo = map lower body
      in if lo = ''inf'' \<or> lo = ''infinity'' then Some (DecInf sg)
         else if take 3 lo = ''nan'' \<and> list_all is_digit (drop 3 lo) then Some DecNaN
         else if take 4 lo = ''snan'' \<and> list_all is_digit (drop 4 lo) then Some DecSNaN
         else finite_part sg lo)"

text \<open>
  Comparisons of a Decimal with an integer. \<^verbatim>\<open>==\<close> is false on a quiet NaN and raises
  \<^verbatim>\<open>InvalidOperation\<close> on a signalling one; \<^verbatim>\<open><\<close> and \<^verbatim>\<open>>\<close> raise on both. A raise is the
  result \<open>None\<close>.
\<close>
fun decimal_eq :: "pydecimal \<Rightarrow> int \<Rightarrow> bool option" where
  "decimal_eq (Dec r) n = Some (r = of_int n)"
| "decimal_eq (DecInf _) n = Some False"
| "decimal_eq DecNaN n = Some False"
| "decimal_eq DecSNaN n = None"

fun decimal_less :: "pydecimal \<Rightarrow> int \<Rightarrow> bool option" where
  "decimal_less (Dec r) n = Some (r < of_int n)"
| "decimal_less (DecInf s) n = Some (s = Minus)"
| "decimal_less DecNaN n = None"
| "decimal_less DecSNaN n = None"

fun decimal_greater :: "pydecimal \<Rightarrow> int \<Rightarrow> bool option" where
  "decimal_greater (Dec r) n = Some (of_int n < r)"
| "decimal_greater (DecInf s) n = Some (s = Plus)"
| "decimal_greater DecNaN n = None"
| "decimal_greater DecSNaN n = None"

text \<open>Python's \<^verbatim>\<open>a and b\<close> and \<^verbatim>\<open>a or b\<close> on tests that can raise: \<open>b\<close> is evaluated only if needed.\<close>
definition and_then :: "bool option \<Rightarrow> bool option \<Rightarrow> bool option" where
  "and_then a b = (case a of None \<Rightarrow> None | Some x \<Rightarrow> if x then b else Some False)"

definition or_else :: "bool option \<Rightarrow> bool option \<Rightarrow> bool option" where
  "or_else a b = (case a of None \<Rightarrow> None | Some x \<Rightarrow> if x then Some True else b)"

section \<open>Coordinates\<close>

text \<open>\<^verbatim>\<open>x.split(' ')\<close>: the pieces of \<open>x\<close> between single spaces.\<close>
fun split_space :: "string \<Rightarrow> string list" where
  "split_space [] = [[]]"
| "split_space (c # cs) =
     (if c = CHR '' '' then [] # split_space cs
      else (case split_space cs of
              [] \<Rightarrow> [[c]]
            | w # ws \<Rightarrow> (c # w) # ws))"

text \<open>
  The body of the second \<^verbatim>\<open>try\<close> of \<^verbatim>\<open>valid_coords\<close>: \<open>None\<close> when it raises
  \<^verbatim>\<open>InvalidOperation\<close>.
\<close>
definition coords_in_range :: "string \<Rightarrow> string \<Rightarrow> bool option" where
  "coords_in_range c0 c1 =
     (case Decimal_of_string c0 of
        None \<Rightarrow> None
      | Some lat \<Rightarrow>
          (case Decimal_of_string c1 of
             None \<Rightarrow> None
           | Some lng \<Rightarrow>
               (case and_then (decimal_eq lat 0) (decimal_eq lng 0) of
                  None \<Rightarrow> None
                | Some True \<Rightarrow> Some False
                | Some False \<Rightarrow>
                    (case or_else (decimal_less lat (- 90))
                            (or_else (decimal_greater lat 90)
                               (or_else (decimal_less lng (- 180)) (decimal_greater lng 180))) of
                       None \<Rightarrow> None
                     | Some True \<Rightarrow> Some False
                     | Some False \<Rightarrow> Some True))))"

text \<open>
  \<^verbatim>\<open>valid_coords(x)\<close>; \<open>x\<close> is the text of a \<^verbatim>\<open>pos\<close> element, \<open>None\<close> when the element has none
  (\<^verbatim>\<open>x.split\<close> then raises \<^verbatim>\<open>AttributeError\<close>, which is caught).
\<close>
definition valid_coords :: "string option \<Rightarrow> bool" where
  "valid_coords x =
     (case x of
        None \<Rightarrow> False
      | Some s \<Rightarrow>
          (let coords = split_space s
           in if length coords \<noteq> 2 then False
              else (case coords_in_range (coords ! 0) (coords ! 1) of
                      None \<Rightarrow> False
                    | Some b \<Rightarrow> b)))"

section \<open>Dates\<close>

text \<open>
  A \<^verbatim>\<open>datetime.date\<close>: year, month and day of the proleptic Gregorian calendar. Python orders
  dates as the triples, and the difference of two dates is the difference of their ordinals
  (day 1 is 1 January of year 1).
\<close>
record date =
  d_year :: int
  d_month :: int
  d_day :: int

definition date_less :: "date \<Rightarrow> date \<Rightarrow> bool" where
  "date_less a b \<longleftrightarrow>
     d_year a < d_year b
     \<or> (d_year a = d_year b
        \<and> (d_month a < d_month b \<or> (d_month a = d_month b \<and> d_day a < d_day b)))"

definition date_le :: "date \<Rightarrow> date \<Rightarrow> bool" where
  "date_le a b \<longleftrightarrow> date_less a b \<or> a = b"

definition is_leap :: "int \<Rightarrow> bool" where
  "is_leap y \<longleftrightarrow> y mod 4 = 0 \<and> (y mod 100 \<noteq> 0 \<or> y mod 400 = 0)"

definition days_before_year :: "int \<Rightarrow> int" where
  "days_before_year year = (let y = year - 1 in y * 365 + y div 4 - y div 100 + y div 400)"

definition days_in_month :: "int \<Rightarrow> int \<Rightarrow> int" where
  "days_in_month year month =
     (if month = 2 \<and> is_leap year then 29
      else [31, 28, 31, 30, 31, 30, 31, 31, 30, 31, 30, 31] ! nat (month - 1))"

definition days_before_month :: "int \<Rightarrow> int \<Rightarrow> int" where
  "days_before_month year month =
     [0, 31, 59, 90, 120, 151, 181, 212, 243, 273, 304, 334] ! nat (month - 1)
     + (if 2 < month \<and> is_leap year then 1 else 0)"

definition toordinal :: "date \<Rightarrow> int" where
  "toordinal d = days_before_year (d_year d) + days_before_month (d_year d) (d_month d) + d_day d"

text \<open>\<^verbatim>\<open>date.fromordinal\<close>, as the standard library computes it.\<close>
definition fromordinal :: "int \<Rightarrow> date" where
  "fromordinal ordinal =
     (let n0 = ordinal - 1;
          n400 = n0 div 146097; n1 = n0 mod 146097;
          n100 = n1 div 36524; n2 = n1 mod 36524;
          n4 = n2 div 1461; n3 = n2 mod 1461;
          n1y = n3 div 365; n = n3 mod 365;
          year = n400 * 400 + 1 + n100 * 100 + n4 * 4 + n1y
      in if n1y = 4 \<or> n100 = 4 then \<lparr>d_year = year - 1, d_month = 12, d_day = 31\<rparr>
         else
           let leapyear = (n1y = 3 \<and> (n4 \<noteq> 24 \<or> n100 = 3));
               month = (n + 50) div 32;
               preceding = [0, 31, 59, 90, 120, 151, 181, 212, 243, 273, 304, 334] ! nat (month - 1)
                           + (if 2 < month \<and> leapyear then 1 else 0)
           in if n < preceding
              then (let month' = month - 1;
                        preceding' = preceding
                          - ([31, 28, 31, 30, 31, 30, 31, 31, 30, 31, 30, 31] ! nat (month' - 1)
                             + (if month' = 2 \<and> leapyear then 1 else 0))
                    in \<lparr>d_year = year, d_month = month', d_day = n - preceding' + 1\<rparr>)
              else \<lparr>d_year = year, d_month = month, d_day = n - preceding + 1\<rparr>)"

text \<open>
  \<^verbatim>\<open>add_years(d, years)\<close>. \<^verbatim>\<open>d.replace(year=...)\<close> raises \<^verbatim>\<open>ValueError\<close> when the year leaves
  1..9999 or the day does not exist in the new year (29 February); the handler then adds
  the distance of the two years' first days, and \<^verbatim>\<open>date(d.year + years, 1, 1)\<close> raises
  \<^verbatim>\<open>ValueError\<close> again, uncaught, when the year is out of range.
\<close>
definition add_years :: "date \<Rightarrow> int \<Rightarrow> py_error + date" where
  "add_years d years =
     (let y = d_year d + years
      in if 1 \<le> y \<and> y \<le> 9999 \<and> d_day d \<le> days_in_month y (d_month d)
         then Inr (d\<lparr>d_year := y\<rparr>)
         else if 1 \<le> y \<and> y \<le> 9999
         then Inr (fromordinal (toordinal d
                      + (toordinal \<lparr>d_year = y, d_month = 1, d_day = 1\<rparr>
                         - toordinal \<lparr>d_year = d_year d, d_month = 1, d_day = 1\<rparr>)))
         else Inl ValueError)"

section \<open>Currency conversion\<close>

text \<open>
  \<^verbatim>\<open>currency_values\<close> of \<^verbatim>\<open>helpers/currency_conversion\<close>: currency code to year to rate, the
  rates being floats. The table is read from \<^verbatim>\<open>exchange_rates.csv\<close>, which is not among the
  sources: it is a parameter.
\<close>
type_synonym rate_table = "string \<rightharpoonup> (int \<rightharpoonup> pyfloat)"

text \<open>
  The body of the \<^verbatim>\<open>try\<close> of \<^verbatim>\<open>get_USD_value\<close>:
  \<^verbatim>\<open>(1 / currency_values[input_currency][int(year)]) * float(input_value)\<close>, evaluated left to
  right. The year is an integer, so \<^verbatim>\<open>int(year)\<close> is the year.
\<close>
definition usd_value_attempt :: "rate_table \<Rightarrow> string \<Rightarrow> pydecimal \<Rightarrow> int \<Rightarrow> py_error + pyfloat" where
  "usd_value_attempt currency_values input_currency input_value year =
     (case currency_values input_currency of
        None \<Rightarrow> Inl KeyError
      | Some rates \<Rightarrow>
          (case rates year of
             None \<Rightarrow> Inl KeyError
           | Some rate \<Rightarrow>
               (case float_inverse rate of
                  Inl e \<Rightarrow> Inl e
                | Inr inverse_rate \<Rightarrow>
                    (case float_of_decimal input_value of
                       Inl e \<Rightarrow> Inl e
                     | Inr v \<Rightarrow> Inr (float_mul inverse_rate v)))))"

text \<open>
  \<^verbatim>\<open>get_USD_value(input_currency, input_value, year)\<close>: \<^verbatim>\<open>KeyError\<close> and
  \<^verbatim>\<open>ZeroDivisionError\<close> are caught and give \<^verbatim>\<open>Decimal(0)\<close>; any other exception propagates.
\<close>
definition get_USD_value :: "rate_table \<Rightarrow> string \<Rightarrow> pydecimal \<Rightarrow> int \<Rightarrow> py_error + pydecimal" where
  "get_USD_value currency_values input_currency input_value year =
     (case usd_value_attempt currency_values input_currency input_value year of
        Inl e \<Rightarrow> if e = KeyError \<or> e = ZeroDivisionError then Inr (Dec 0) else Inl e
      | Inr usd_value \<Rightarrow> Inr (Decimal_of_float usd_value))"

section \<open>The activity\<close>

text \<open>
  An \<^verbatim>\<open>iati-activity\<close> element as the statistics read it: for each child element the
  attributes and texts that the modelled functions query, \<open>None\<close> for an absent attribute or
  text. Parsing the markup and the functions of \<^verbatim>\<open>stats.common\<close> (\<^verbatim>\<open>iso_date\<close>,
  \<^verbatim>\<open>transaction_date\<close>, \<^verbatim>\<open>budget_year\<close>) are not among the sources: an element carries the
  value they return for it. Each statistic is modelled by what the body of its method
  returns for an activity that is not blank (\<^verbatim>\<open>self.blank\<close> is false).
\<close>

record sector =
  sector_vocabulary :: "string option"
  sector_code :: "string option"

record value_element =
  value_text :: "string option"
  value_currency :: "string option"

record transaction =
  t_humanitarian :: "string option"
  t_type_codes :: "string option list"  \<comment> \<open>\<^verbatim>\<open>@code\<close> of each \<^verbatim>\<open>transaction-type\<close> child\<close>
  t_values :: "value_element list"  \<comment> \<open>the \<^verbatim>\<open>value\<close> children\<close>
  t_date :: "date option"  \<comment> \<open>\<^verbatim>\<open>transaction_date(transaction)\<close>\<close>
  t_sectors :: "sector list"
  t_provider_activity_ids :: "string list"  \<comment> \<open>\<^verbatim>\<open>provider-org/@provider-activity-id\<close>\<close>

record budget =
  b_type :: "string option"
  b_values :: "value_element list"
  b_year :: "int option"  \<comment> \<open>\<^verbatim>\<open>budget_year(budget)\<close>\<close>

record activity_date =
  ad_type :: "string option"
  ad_iso_date :: "date option"  \<comment> \<open>\<^verbatim>\<open>iso_date(x)\<close>\<close>

record humanitarian_scope =
  hs_type :: "string option"
  hs_code :: "string option"
  hs_vocabulary :: "string option"

record participating_org =
  po_role :: "string option"
  po_ref :: "string option"

text \<open>
  \<open>presence k\<close> is the truth value of the test that \<^verbatim>\<open>_comprehensiveness_bools\<close> evaluates for
  the key \<open>k\<close>, for the keys whose test queries parts of the tree that this record does not
  carry (texts, narratives, languages, links, locations). \<open>validated k\<close> is the value that
  \<^verbatim>\<open>_comprehensiveness_with_validation_bools\<close> computes for the key \<open>k\<close>, for the keys whose
  test calls the XML Schema validators of lxml or the codelists read from files; \<open>Inl e\<close>
  when that computation raises.
\<close>
record activity =
  parent_version :: "string option option"
    \<comment> \<open>\<open>None\<close>: the element has no parent; else \<^verbatim>\<open>@version\<close> of the parent\<close>
  humanitarian_attr :: "string option"
  default_currency :: "string option"
  budget_not_provided_attr :: "int option option"
    \<comment> \<open>\<open>None\<close>: no \<^verbatim>\<open>@budget-not-provided\<close>; \<open>Some None\<close>: \<^verbatim>\<open>int()\<close> rejects its value\<close>
  iati_identifiers :: "string option list"  \<comment> \<open>the text of each \<^verbatim>\<open>iati-identifier\<close> child\<close>
  reporting_org_refs :: "string option list"  \<comment> \<open>\<^verbatim>\<open>@ref\<close> of each \<^verbatim>\<open>reporting-org\<close> child\<close>
  participating_orgs :: "participating_org list"
  activity_statuses :: "string option list"  \<comment> \<open>\<^verbatim>\<open>@code\<close> of each \<^verbatim>\<open>activity-status\<close> child\<close>
  activity_dates :: "activity_date list"
  recipient_countries :: "string option list"  \<comment> \<open>\<^verbatim>\<open>@code\<close> of each \<^verbatim>\<open>recipient-country\<close>\<close>
  sectors :: "sector list"
  humanitarian_scopes :: "humanitarian_scope list"
  transactions :: "transaction list"
  budgets :: "budget list"
  location_point_pos :: "string option list"
    \<comment> \<open>the text of each element of \<^verbatim>\<open>location/point/pos\<close>\<close>
  presence :: "string \<Rightarrow> bool"
  validated :: "string \<Rightarrow> py_error + bool"

text \<open>
  What a run fixes besides the activity: \<^verbatim>\<open>self.today\<close> (set by the runner), the
  \<^verbatim>\<open>Version\<close> codelist \<^verbatim>\<open>CODELISTS['2']['Version']\<close> and the exchange rates.
\<close>
record env =
  today :: date
  version_codelist :: "string set"
  currency_values :: rate_table

text \<open>The values of the attributes that are present: what an XPath \<^verbatim>\<open>.../@attr\<close> returns.\<close>
definition present :: "'a option list \<Rightarrow> 'a list" where
  "present xs = concat (map (\<lambda>x. case x of None \<Rightarrow> [] | Some v \<Rightarrow> [v]) xs)"

definition all_true_and_not_empty :: "bool list \<Rightarrow> bool" where
  "all_true_and_not_empty bool_list \<longleftrightarrow> list_all (\<lambda>b. b) bool_list \<and> 0 < length bool_list"

text \<open>\<^verbatim>\<open>CommonSharedElements._version\<close> and \<^verbatim>\<open>_major_version\<close>.\<close>
definition version :: "env \<Rightarrow> activity \<Rightarrow> string" where
  "version e a =
     (case parent_version a of
        None \<Rightarrow> ''1.01''
      | Some v \<Rightarrow>
          (case v of
             None \<Rightarrow> ''1.01''
           | Some s \<Rightarrow> if s \<noteq> [] \<and> s \<in> version_codelist e then s else ''1.01''))"

definition major_version :: "env \<Rightarrow> activity \<Rightarrow> string" where
  "major_version e a = (if take 2 (version e a) = ''2.'' then ''2'' else ''1'')"

definition planned_start_code :: "env \<Rightarrow> activity \<Rightarrow> string" where
  "planned_start_code e a = (if major_version e a = ''1'' then ''start-planned'' else ''1'')"

definition actual_start_code :: "env \<Rightarrow> activity \<Rightarrow> string" where
  "actual_start_code e a = (if major_version e a = ''1'' then ''start-actual'' else ''2'')"

definition planned_end_code :: "env \<Rightarrow> activity \<Rightarrow> string" where
  "planned_end_code e a = (if major_version e a = ''1'' then ''end-planned'' else ''3'')"

definition actual_end_code :: "env \<Rightarrow> activity \<Rightarrow> string" where
  "actual_end_code e a = (if major_version e a = ''1'' then ''end-actual'' else ''4'')"

definition incoming_funds_code :: "env \<Rightarrow> activity \<Rightarrow> string" where
  "incoming_funds_code e a = (if major_version e a = ''1'' then ''IF'' else ''1'')"

definition commitment_code :: "env \<Rightarrow> activity \<Rightarrow> string" where
  "commitment_code e a = (if major_version e a = ''1'' then ''C'' else ''2'')"

definition disbursement_code :: "env \<Rightarrow> activity \<Rightarrow> string" where
  "disbursement_code e a = (if major_version e a = ''1'' then ''D'' else ''3'')"

definition expenditure_code :: "env \<Rightarrow> activity \<Rightarrow> string" where
  "expenditure_code e a = (if major_version e a = ''1'' then ''E'' else ''4'')"

definition dac_5_code :: "env \<Rightarrow> activity \<Rightarrow> string" where
  "dac_5_code e a = (if major_version e a = ''1'' then ''DAC'' else ''1'')"

definition dac_3_code :: "env \<Rightarrow> activity \<Rightarrow> string" where
  "dac_3_code e a = (if major_version e a = ''1'' then ''DAC-3'' else ''2'')"

definition funding_code :: "env \<Rightarrow> activity \<Rightarrow> string" where
  "funding_code e a = (if major_version e a = ''1'' then ''Funding'' else ''1'')"

definition OrganisationRole_Extending_code :: "env \<Rightarrow> activity \<Rightarrow> string" where
  "OrganisationRole_Extending_code e a = (if major_version e a = ''1'' then ''Extending'' else ''3'')"

definition OrganisationRole_Implementing_code :: "env \<Rightarrow> activity \<Rightarrow> string" where
  "OrganisationRole_Implementing_code e a =
     (if major_version e a = ''1'' then ''Implementing'' else ''4'')"

text \<open>
  \<^verbatim>\<open>CommonSharedElements.iati_identifier\<close>: the text of the first \<^verbatim>\<open>iati-identifier\<close>, and
  \<^verbatim>\<open>None\<close> when there is none (the \<^verbatim>\<open>AttributeError\<close> is caught).
\<close>
definition iati_identifier :: "activity \<Rightarrow> string option" where
  "iati_identifier a = (case iati_identifiers a of [] \<Rightarrow> None | t # _ \<Rightarrow> t)"

section \<open>Humanitarian classification\<close>

definition humanitarian_sectors_dac_5_digit :: "string list" where
  "humanitarian_sectors_dac_5_digit =
     [''72010'', ''72011'', ''72012'', ''72040'', ''72050'', ''73010'', ''74010'', ''74020'']"

definition humanitarian_sectors_dac_3_digit :: "string list" where
  "humanitarian_sectors_dac_3_digit = [''720'', ''730'', ''740'']"

text \<open>
  \<^verbatim>\<open>sector[@vocabulary="v" or not(@vocabulary)]/@code\<close> and \<^verbatim>\<open>sector[@vocabulary="v"]/@code\<close>
  on a list of \<^verbatim>\<open>sector\<close> elements.
\<close>
definition codes_vocabulary_or_none :: "string \<Rightarrow> sector list \<Rightarrow> string list" where
  "codes_vocabulary_or_none v ss =
     present (map sector_code
       (filter (\<lambda>s. sector_vocabulary s = Some v \<or> sector_vocabulary s = None) ss))"

definition codes_vocabulary :: "string \<Rightarrow> sector list \<Rightarrow> string list" where
  "codes_vocabulary v ss =
     present (map sector_code (filter (\<lambda>s. sector_vocabulary s = Some v) ss))"

text \<open>\<^verbatim>\<open>transaction[not(@humanitarian="0" or @humanitarian="false")]\<close>.\<close>
definition transactions_not_flagged_out :: "activity \<Rightarrow> transaction list" where
  "transactions_not_flagged_out a =
     filter (\<lambda>t. \<not> (t_humanitarian t = Some ''0'' \<or> t_humanitarian t = Some ''false''))
       (transactions a)"

definition intersects :: "'a list \<Rightarrow> 'a list \<Rightarrow> bool" where
  "intersects xs ys \<longleftrightarrow> set xs \<inter> set ys \<noteq> {}"

definition is_humanitarian_by_attrib_activity :: "activity \<Rightarrow> bool" where
  "is_humanitarian_by_attrib_activity a \<longleftrightarrow>
     (case humanitarian_attr a of None \<Rightarrow> False | Some h \<Rightarrow> h \<in> set [''1'', ''true''])"

definition is_not_humanitarian_by_attrib_activity :: "activity \<Rightarrow> bool" where
  "is_not_humanitarian_by_attrib_activity a \<longleftrightarrow>
     (case humanitarian_attr a of None \<Rightarrow> False | Some h \<Rightarrow> h \<in> set [''0'', ''false''])"

definition is_humanitarian_by_attrib_transaction :: "activity \<Rightarrow> bool" where
  "is_humanitarian_by_attrib_transaction a \<longleftrightarrow>
     intersects (present (map t_humanitarian (transactions a))) [''1'', ''true'']"

definition is_humanitarian_by_attrib :: "env \<Rightarrow> activity \<Rightarrow> bool" where
  "is_humanitarian_by_attrib e a \<longleftrightarrow>
     version e a \<in> set [''2.02'', ''2.03'']
     \<and> (is_humanitarian_by_attrib_activity a
        \<or> (is_humanitarian_by_attrib_transaction a \<and> \<not> is_not_humanitarian_by_attrib_activity a))"

definition is_humanitarian_by_sector_5_digit_activity :: "env \<Rightarrow> activity \<Rightarrow> bool" where
  "is_humanitarian_by_sector_5_digit_activity e a \<longleftrightarrow>
     intersects (codes_vocabulary_or_none (dac_5_code e a) (sectors a))
       humanitarian_sectors_dac_5_digit"

definition is_humanitarian_by_sector_5_digit_transaction :: "env \<Rightarrow> activity \<Rightarrow> bool" where
  "is_humanitarian_by_sector_5_digit_transaction e a \<longleftrightarrow>
     intersects
       (concat (map (\<lambda>t. codes_vocabulary_or_none (dac_5_code e a) (t_sectors t))
                  (transactions_not_flagged_out a)))
       humanitarian_sectors_dac_5_digit"

definition is_humanitarian_by_sector_3_digit_activity :: "env \<Rightarrow> activity \<Rightarrow> bool" where
  "is_humanitarian_by_sector_3_digit_activity e a \<longleftrightarrow>
     intersects (codes_vocabulary (dac_3_code e a) (sectors a)) humanitarian_sectors_dac_3_digit"

definition is_humanitarian_by_sector_3_digit_transaction :: "env \<Rightarrow> activity \<Rightarrow> bool" where
  "is_humanitarian_by_sector_3_digit_transaction e a \<longleftrightarrow>
     intersects
       (concat (map (\<lambda>t. codes_vocabulary (dac_3_code e a) (t_sectors t))
                  (transactions_not_flagged_out a)))
       humanitarian_sectors_dac_3_digit"

definition is_humanitarian_by_sector :: "env \<Rightarrow> activity \<Rightarrow> bool" where
  "is_humanitarian_by_sector e a \<longleftrightarrow>
     (is_humanitarian_by_sector_5_digit_activity e a \<or> is_humanitarian_by_sector_3_digit_activity e a)
     \<or> ((is_humanitarian_by_sector_5_digit_transaction e a
          \<or> is_humanitarian_by_sector_3_digit_transaction e a)
         \<and> major_version e a \<in> set [''2''])"

text \<open>
  The local \<^verbatim>\<open>is_humanitarian\<close> of \<^verbatim>\<open>ActivityStats.humanitarian\<close>: the combination of the
  signals, then the veto.
\<close>
definition is_humanitarian :: "env \<Rightarrow> activity \<Rightarrow> int" where
  "is_humanitarian e a =
     (let combined = (if is_humanitarian_by_attrib e a \<or> is_humanitarian_by_sector e a
                      then 1 else 0)
      in if is_not_humanitarian_by_attrib_activity a then 0 else combined)"

definition int_of_bool :: "bool \<Rightarrow> int" where
  "int_of_bool b = (if b then 1 else 0)"

text \<open>\<^verbatim>\<open>ActivityStats.humanitarian\<close>: the dictionary, as the list of its items.\<close>
definition humanitarian :: "env \<Rightarrow> activity \<Rightarrow> (string \<times> int) list" where
  "humanitarian e a =
     (let h = (is_humanitarian e a \<noteq> 0);
          v = (version e a \<in> set [''2.02'', ''2.03'']);
          scope = (all_true_and_not_empty
                     (map (\<lambda>s. s \<noteq> []) (present (map hs_type (humanitarian_scopes a))))
                   \<and> all_true_and_not_empty
                       (map (\<lambda>s. s \<noteq> []) (present (map hs_code (humanitarian_scopes a)))));
          clusters = (\<exists>s \<in> set (sectors a). sector_vocabulary s = Some ''10'');
          vocabularies = present (map hs_vocabulary (humanitarian_scopes a));
          glide = (vocabularies \<noteq> [] \<and> ''1-2'' \<in> set vocabularies);
          hrp = (vocabularies \<noteq> [] \<and> ''2-1'' \<in> set vocabularies)
      in [(''is_humanitarian'', is_humanitarian e a),
          (''is_humanitarian_by_attrib'', int_of_bool (is_humanitarian_by_attrib e a)),
          (''contains_humanitarian_scope'', int_of_bool (h \<and> v \<and> scope)),
          (''contains_humanitarian_scope_without_humanitarian'', int_of_bool (\<not> h \<and> v \<and> scope)),
          (''uses_humanitarian_clusters_vocab'', int_of_bool (h \<and> v \<and> clusters)),
          (''uses_humanitarian_clusters_vocab_without_humanitarian'',
             int_of_bool (\<not> h \<and> v \<and> clusters)),
          (''uses_humanitarian_glide_codes'', int_of_bool (h \<and> v \<and> glide)),
          (''uses_humanitarian_glide_codes_without_humanitarian'', int_of_bool (\<not> h \<and> v \<and> glide)),
          (''uses_humanitarian_hrp_codes'', int_of_bool (h \<and> v \<and> hrp)),
          (''uses_humanitarian_hrp_codes_without_humanitarian'', int_of_bool (\<not> h \<and> v \<and> hrp))])"

section \<open>Comprehensiveness\<close>

text \<open>\<^verbatim>\<open>[iso_date(x) for x in xpath('activity-date[@type="code"]') if iso_date(x)]\<close>.\<close>
definition dates_of_type :: "string \<Rightarrow> activity \<Rightarrow> date list" where
  "dates_of_type code a =
     present (map ad_iso_date (filter (\<lambda>x. ad_type x = Some code) (activity_dates a)))"

text \<open>The loop over the actual end dates: the first one within the last year decides.\<close>
fun ended_within_last_year :: "date \<Rightarrow> date list \<Rightarrow> py_error + bool" where
  "ended_within_last_year now [] = Inr False"
| "ended_within_last_year now (actual_end_date # ds) =
     (case add_years now (- 1) of
        Inl err \<Rightarrow> Inl err
      | Inr year_ago \<Rightarrow>
          if date_le year_ago actual_end_date \<and> date_le actual_end_date now then Inr True
          else ended_within_last_year now ds)"

text \<open>
  \<^verbatim>\<open>_comprehensiveness_is_current\<close> stores a code in
  \<^verbatim>\<open>self.comprehensiveness_current_activity_status\<close> and returns whether it is not 0. The code:
  1 by status, 2 by a recent actual end, 3 by a planned end not in the past, 0 otherwise.
\<close>
definition comprehensiveness_current_activity_status :: "env \<Rightarrow> activity \<Rightarrow> py_error + int" where
  "comprehensiveness_current_activity_status e a =
     (let activity_status_code = present (activity_statuses a);
          activity_planned_end_dates = dates_of_type (planned_end_code e a) a;
          activity_actual_end_dates = dates_of_type (actual_end_code e a) a
      in if activity_planned_end_dates = []
            \<and> (case activity_status_code of [] \<Rightarrow> False | c # _ \<Rightarrow> c = ''2'' \<or> c = ''4'')
         then Inr 1
         else (case ended_within_last_year (today e) activity_actual_end_dates of
                 Inl err \<Rightarrow> Inl err
               | Inr True \<Rightarrow> Inr 2
               | Inr False \<Rightarrow>
                   if \<exists>planned_end_date \<in> set activity_planned_end_dates.
                        date_le (today e) planned_end_date
                   then Inr 3 else Inr 0))"

definition comprehensiveness_is_current :: "env \<Rightarrow> activity \<Rightarrow> py_error + bool" where
  "comprehensiveness_is_current e a =
     (case comprehensiveness_current_activity_status e a of
        Inl err \<Rightarrow> Inl err
      | Inr status \<Rightarrow> Inr (status \<noteq> 0))"

text \<open>\<^verbatim>\<open>transaction[transaction-type/@code="c1" or transaction-type/@code="c2" ...]\<close>.\<close>
definition transactions_of_type :: "string list \<Rightarrow> activity \<Rightarrow> transaction list" where
  "transactions_of_type codes a =
     filter (\<lambda>t. intersects (present (t_type_codes t)) codes) (transactions a)"

definition is_donor_publisher :: "env \<Rightarrow> activity \<Rightarrow> bool" where
  "is_donor_publisher e a =
     (case present (reporting_org_refs a) of
        [] \<Rightarrow> False
      | ref # _ \<Rightarrow>
          ref \<in> set (present (map po_ref
              (filter (\<lambda>p. po_role p = Some (funding_code e a)
                          \<or> po_role p = Some (OrganisationRole_Extending_code e a))
                 (participating_orgs a))))
          \<and> ref \<notin> set (present (map po_ref
              (filter (\<lambda>p. po_role p = Some (OrganisationRole_Implementing_code e a))
                 (participating_orgs a)))))"

text \<open>\<^verbatim>\<open>_budget_not_provided\<close>: \<^verbatim>\<open>int()\<close> of the attribute, \<^verbatim>\<open>None\<close> without it.\<close>
definition budget_not_provided :: "activity \<Rightarrow> py_error + int option" where
  "budget_not_provided a =
     (case budget_not_provided_attr a of
        None \<Rightarrow> Inr None
      | Some None \<Rightarrow> Inl ValueError
      | Some (Some n) \<Rightarrow> Inr (Some n))"

definition is_sector_dac :: "env \<Rightarrow> activity \<Rightarrow> bool" where
  "is_sector_dac e a =
     (let dac = (\<lambda>ss. filter (\<lambda>s. sector_vocabulary s = Some (dac_5_code e a)
                                 \<or> sector_vocabulary s = Some (dac_3_code e a)
                                 \<or> sector_vocabulary s = None) ss);
          all_transactions_have_dac_sector_codes =
            (if major_version e a \<noteq> ''1''
             then all_true_and_not_empty (map (\<lambda>t. dac (t_sectors t) \<noteq> []) (transactions a))
             else False)
      in dac (sectors a) \<noteq> [] \<or> all_transactions_have_dac_sector_codes)"

text \<open>
  \<^verbatim>\<open>_comprehensiveness_bools\<close>: the items of the dictionary in the order of the source, each
  value by its truth value. Only \<^verbatim>\<open>_budget_not_provided\<close> can raise.
\<close>
definition comprehensiveness_bools :: "env \<Rightarrow> activity \<Rightarrow> py_error + (string \<times> bool) list" where
  "comprehensiveness_bools e a =
     (case budget_not_provided a of
        Inl err \<Rightarrow> Inl err
      | Inr bnp \<Rightarrow>
          Inr [(''version'', (case parent_version a of Some (Some v) \<Rightarrow> True | _ \<Rightarrow> False)),
               (''reporting-org'', presence a ''reporting-org''),
               (''iati-identifier'', presence a ''iati-identifier''),
               (''participating-org'', participating_orgs a \<noteq> []),
               (''title'', presence a ''title''),
               (''description'', presence a ''description''),
               (''activity-status'', activity_statuses a \<noteq> []),
               (''activity-date'', activity_dates a \<noteq> []),
               (''sector'', sectors a \<noteq> []
                  \<or> (major_version e a \<noteq> ''1''
                     \<and> all_true_and_not_empty (map (\<lambda>t. t_sectors t \<noteq> []) (transactions a)))),
               (''country_or_region'', presence a ''country_or_region''),
               (''transaction_commitment'',
                  transactions_of_type [commitment_code e a, ''11''] a \<noteq> []),
               (''transaction_spend'',
                  transactions_of_type [disbursement_code e a, expenditure_code e a] a \<noteq> []),
               (''transaction_currency'', presence a ''transaction_currency''),
               (''transaction_traceability'',
                  all_true_and_not_empty
                    (map (\<lambda>t. t_provider_activity_ids t \<noteq> [])
                       (transactions_of_type [incoming_funds_code e a, ''11'', ''13''] a))
                  \<or> is_donor_publisher e a),
               (''budget'', budgets a \<noteq> []),
               (''budget_not_provided'', bnp \<noteq> None),
               (''contact-info'', presence a ''contact-info''),
               (''location'', presence a ''location''),
               (''location_point_pos'', location_point_pos a \<noteq> []),
               (''sector_dac'', is_sector_dac e a),
               (''capital-spend'', presence a ''capital-spend''),
               (''document-link'', presence a ''document-link''),
               (''activity-website'', presence a ''activity-website''),
               (''recipient_language'', presence a ''recipient_language''),
               (''conditions_attached'', presence a ''conditions_attached''),
               (''result_indicator'', presence a ''result_indicator''),
               (''aid_type'', presence a ''aid_type'')])"

text \<open>Dictionaries whose order matters, as lists of items: \<^verbatim>\<open>d[k] = v\<close> and \<^verbatim>\<open>d.update(u)\<close>.\<close>
fun set_item :: "'k \<Rightarrow> 'v \<Rightarrow> ('k \<times> 'v) list \<Rightarrow> ('k \<times> 'v) list" where
  "set_item k v [] = [(k, v)]"
| "set_item k v (p # ps) = (if fst p = k then (k, v) # ps else p # set_item k v ps)"

definition update_items :: "('k \<times> 'v) list \<Rightarrow> ('k \<times> 'v) list \<Rightarrow> ('k \<times> 'v) list" where
  "update_items d u = foldl (\<lambda>m (k, v). set_item k v m) d u"

text \<open>The values of a dictionary display, evaluated in order: the first raise ends it.\<close>
fun evaluate_items :: "('k \<times> (py_error + 'v)) list \<Rightarrow> py_error + ('k \<times> 'v) list" where
  "evaluate_items [] = Inr []"
| "evaluate_items ((k, r) # rest) =
     (case r of
        Inl err \<Rightarrow> Inl err
      | Inr v \<Rightarrow> (case evaluate_items rest of Inl err \<Rightarrow> Inl err | Inr vs \<Rightarrow> Inr ((k, v) # vs)))"

text \<open>
  The dictionary that \<^verbatim>\<open>_comprehensiveness_with_validation_bools\<close> passes to \<^verbatim>\<open>bools.update\<close>:
  seventeen keys, each with the value of its validity test. \<^verbatim>\<open>participating-org\<close> and
  \<^verbatim>\<open>location_point_pos\<close> are computed from the record; the others are \<open>validated\<close>.
\<close>
definition validation_updates :: "env \<Rightarrow> activity \<Rightarrow> (string \<times> (py_error + bool)) list" where
  "validation_updates e a =
     [(''version'', validated a ''version''),
      (''iati-identifier'', validated a ''iati-identifier''),
      (''participating-org'',
         Inr (participating_orgs a \<noteq> []
              \<and> funding_code e a \<in> set (present (map po_role (participating_orgs a))))),
      (''activity-status'', validated a ''activity-status''),
      (''activity-date'', validated a ''activity-date''),
      (''sector'', validated a ''sector''),
      (''country_or_region'', validated a ''country_or_region''),
      (''transaction_commitment'', validated a ''transaction_commitment''),
      (''transaction_spend'', validated a ''transaction_spend''),
      (''transaction_currency'', validated a ''transaction_currency''),
      (''budget'', validated a ''budget''),
      (''budget_not_provided'', validated a ''budget_not_provided''),
      (''location_point_pos'',
         Inr (all_true_and_not_empty (map valid_coords (location_point_pos a)))),
      (''sector_dac'', validated a ''sector_dac''),
      (''document-link'', validated a ''document-link''),
      (''activity-website'', validated a ''activity-website''),
      (''aid_type'', validated a ''aid_type'')]"

text \<open>
  \<^verbatim>\<open>_comprehensiveness_with_validation_bools\<close>: the presence tests, updated with the validity
  tests.
\<close>
definition comprehensiveness_with_validation_bools ::
  "env \<Rightarrow> activity \<Rightarrow> py_error + (string \<times> bool) list" where
  "comprehensiveness_with_validation_bools e a =
     (case comprehensiveness_bools e a of
        Inl err \<Rightarrow> Inl err
      | Inr bools \<Rightarrow>
          (case evaluate_items (validation_updates e a) of
             Inl err \<Rightarrow> Inl err
           | Inr updates \<Rightarrow> Inr (update_items bools updates)))"

text \<open>
  The start date of \<^verbatim>\<open>comprehensiveness_denominators\<close>: \<^verbatim>\<open>iso_date\<close> of the first actual start
  date, of the first planned one when there is no actual one.
\<close>
definition start_date :: "env \<Rightarrow> activity \<Rightarrow> date option" where
  "start_date e a =
     (case filter (\<lambda>x. ad_type x = Some (actual_start_code e a)) (activity_dates a)
           @ filter (\<lambda>x. ad_type x = Some (planned_start_code e a)) (activity_dates a) of
        [] \<Rightarrow> None
      | x # _ \<Rightarrow> ad_iso_date x)"

definition comprehensiveness_denominators :: "env \<Rightarrow> activity \<Rightarrow> py_error + (string \<times> int) list" where
  "comprehensiveness_denominators e a =
     (case comprehensiveness_is_current e a of
        Inl err \<Rightarrow> Inl err
      | Inr True \<Rightarrow>
          Inr [(''recipient_language'', if length (recipient_countries a) = 1 then 1 else 0),
               (''transaction_spend'',
                  (case start_date e a of
                     None \<Rightarrow> 0
                   | Some d \<Rightarrow>
                       if date_less d (today e) \<and> 365 < toordinal (today e) - toordinal d
                       then 1 else 0)),
               (''transaction_traceability'',
                  if transactions_of_type [incoming_funds_code e a, ''11'', ''13''] a \<noteq> []
                     \<or> is_donor_publisher e a
                  then 1 else 0)]
      | Inr False \<Rightarrow>
          Inr [(''recipient_language'', 0),
               (''transaction_spend'', 0),
               (''transaction_traceability'', 0)])"

text \<open>
  The dictionary comprehension of \<^verbatim>\<open>comprehensiveness\<close> and
  \<^verbatim>\<open>comprehensiveness_with_validation\<close>:
  \<^verbatim>\<open>{k: (1 if v and (k not in denominators or denominators[k]) else 0) for k, v in bools.items()}\<close>.
\<close>
definition numerators :: "(string \<times> bool) list \<Rightarrow> (string \<times> int) list \<Rightarrow> (string \<times> int) list" where
  "numerators bools denominators =
     map (\<lambda>(k, v).
            (k, if v \<and> (case map_of denominators k of None \<Rightarrow> True | Some d \<Rightarrow> d \<noteq> 0)
                then 1 else 0))
       bools"

definition comprehensiveness :: "env \<Rightarrow> activity \<Rightarrow> py_error + (string \<times> int) list" where
  "comprehensiveness e a =
     (case comprehensiveness_is_current e a of
        Inl err \<Rightarrow> Inl err
      | Inr False \<Rightarrow> Inr []
      | Inr True \<Rightarrow>
          (case comprehensiveness_bools e a of
             Inl err \<Rightarrow> Inl err
           | Inr bools \<Rightarrow>
               (case comprehensiveness_denominators e a of
                  Inl err \<Rightarrow> Inl err
                | Inr denominators \<Rightarrow> Inr (numerators bools denominators))))"

definition comprehensiveness_with_validation ::
  "env \<Rightarrow> activity \<Rightarrow> py_error + (string \<times> int) list" where
  "comprehensiveness_with_validation e a =
     (case comprehensiveness_is_current e a of
        Inl err \<Rightarrow> Inl err
      | Inr False \<Rightarrow> Inr []
      | Inr True \<Rightarrow>
          (case comprehensiveness_with_validation_bools e a of
             Inl err \<Rightarrow> Inl err
           | Inr bools \<Rightarrow>
               (case comprehensiveness_denominators e a of
                  Inl err \<Rightarrow> Inl err
                | Inr denominators \<Rightarrow> Inr (numerators bools denominators))))"

definition comprehensiveness_denominator_default :: "env \<Rightarrow> activity \<Rightarrow> py_error + int" where
  "comprehensiveness_denominator_default e a =
     (case comprehensiveness_is_current e a of
        Inl err \<Rightarrow> Inl err
      | Inr current \<Rightarrow> Inr (if current then 1 else 0))"

section \<open>Provider activity identifiers\<close>

text \<open>\<^verbatim>\<open>dict(Counter(xs))\<close>: each distinct element with its number of occurrences.\<close>
definition Counter :: "'a list \<Rightarrow> ('a \<times> int) list" where
  "Counter xs =
     foldl (\<lambda>m x. set_item x ((case map_of m x of None \<Rightarrow> 0 | Some c \<Rightarrow> c) + 1) m) [] xs"

text \<open>\<^verbatim>\<open>del d[k]\<close> for a key of \<open>d\<close>.\<close>
definition del_item :: "'k \<Rightarrow> ('k \<times> 'v) list \<Rightarrow> ('k \<times> 'v) list" where
  "del_item k d = filter (\<lambda>p. fst p \<noteq> k) d"

definition provider_activity_id :: "activity \<Rightarrow> (string \<times> int) list" where
  "provider_activity_id a =
     (let out = Counter (concat (map t_provider_activity_ids (transactions a)))
      in case iati_identifier a of
           None \<Rightarrow> out
         | Some own \<Rightarrow> if own \<in> fst ` set out then del_item own out else out)"

section \<open>Financial roll-ups\<close>

text \<open>
  A three-level \<^verbatim>\<open>defaultdict\<close>: type code to currency to year to a Decimal sum, as nested
  lists of items in insertion order (the order in which the USD variants walk them).
\<close>
type_synonym by_year = "(int \<times> pydecimal) list"
type_synonym by_currency = "(string option \<times> by_year) list"
type_synonym rollup = "(string option \<times> by_currency) list"

definition get_default :: "('k \<times> 'v) list \<Rightarrow> 'k \<Rightarrow> 'v \<Rightarrow> 'v" where
  "get_default d k v = (case map_of d k of None \<Rightarrow> v | Some x \<Rightarrow> x)"

text \<open>
  \<^verbatim>\<open>out[type_code][currency][year] += value\<close>: a missing level is created, a missing sum starts at
  \<^verbatim>\<open>Decimal()\<close>, and the addition is the Decimal one.
\<close>
definition add_to_bucket ::
  "string option \<Rightarrow> string option \<Rightarrow> int \<Rightarrow> pydecimal \<Rightarrow> rollup \<Rightarrow> py_error + rollup" where
  "add_to_bucket type_code currency year v out =
     (let currencies = get_default out type_code [];
          years = get_default currencies currency []
      in case decimal_add (get_default years year (Dec 0)) v of
           Inl err \<Rightarrow> Inl err
         | Inr new_sum \<Rightarrow>
             Inr (set_item type_code (set_item currency (set_item year new_sum years) currencies) out))"

text \<open>
  The value of a transaction or budget: \<^verbatim>\<open>Decimal(value.text)\<close> of its first \<^verbatim>\<open>value\<close> child,
  and zero without such a child, without text, or when the text is no number
  (\<^verbatim>\<open>InvalidOperation\<close> is caught).
\<close>
definition value_or_zero :: "value_element list \<Rightarrow> pydecimal" where
  "value_or_zero vs =
     (case vs of
        [] \<Rightarrow> Dec 0
      | v # _ \<Rightarrow>
          (case value_text v of
             None \<Rightarrow> Dec 0
           | Some s \<Rightarrow> (case Decimal_of_string s of None \<Rightarrow> Dec 0 | Some d \<Rightarrow> d)))"

text \<open>
  \<^verbatim>\<open>get_currency\<close>: the first \<^verbatim>\<open>value/@currency\<close> of the transaction or budget, else the
  default currency of the activity.
\<close>
definition get_currency :: "activity \<Rightarrow> value_element list \<Rightarrow> string option" where
  "get_currency a vs =
     (case present (map value_currency vs) of
        [] \<Rightarrow> default_currency a
      | c # _ \<Rightarrow> Some c)"

definition transaction_type_code :: "transaction \<Rightarrow> string option" where
  "transaction_type_code t = (case t_type_codes t of [] \<Rightarrow> None | c # _ \<Rightarrow> c)"

definition transaction_year :: "transaction \<Rightarrow> int option" where
  "transaction_year t = (case t_date t of None \<Rightarrow> None | Some d \<Rightarrow> Some (d_year d))"

text \<open>The loop of \<^verbatim>\<open>_sum_transactions_by_type_by_year\<close> over the transactions.\<close>
fun sum_transactions_loop :: "env \<Rightarrow> activity \<Rightarrow> transaction list \<Rightarrow> rollup \<Rightarrow> py_error + rollup" where
  "sum_transactions_loop e a [] out = Inr out"
| "sum_transactions_loop e a (t # ts) out =
     (if t_type_codes t \<noteq> []
         \<and> transaction_type_code t
             \<in> Some ` set [incoming_funds_code e a, commitment_code e a,
                            disbursement_code e a, expenditure_code e a]
      then (case transaction_year t of
              None \<Rightarrow> sum_transactions_loop e a ts out
            | Some year \<Rightarrow>
                if year \<noteq> 0
                then (case add_to_bucket (transaction_type_code t) (get_currency a (t_values t))
                             year (value_or_zero (t_values t)) out of
                        Inl err \<Rightarrow> Inl err
                      | Inr out' \<Rightarrow> sum_transactions_loop e a ts out')
                else sum_transactions_loop e a ts out)
      else sum_transactions_loop e a ts out)"

definition sum_transactions_by_type_by_year :: "env \<Rightarrow> activity \<Rightarrow> py_error + rollup" where
  "sum_transactions_by_type_by_year e a = sum_transactions_loop e a (transactions a) []"



text \<open>
  The three nested loops of the USD variants over the items of a roll-up. \<open>year_rule\<close> is
  what the loop body does to the year before the conversion: the transaction variant replaces
  a year after 2014 by 2014, the budget variant leaves it. An entry without currency is
  skipped (\<^verbatim>\<open>None not in [currency, value, year]\<close>).
\<close>
fun usd_years ::
  "(int \<Rightarrow> int) \<Rightarrow> rate_table \<Rightarrow> string option \<Rightarrow> string option \<Rightarrow> by_year \<Rightarrow> rollup
     \<Rightarrow> py_error + rollup" where
  "usd_years year_rule cv type_code currency [] out = Inr out"
| "usd_years year_rule cv type_code currency ((year, v) # rest) out =
     (case currency of
        None \<Rightarrow> usd_years year_rule cv type_code currency rest out
      | Some c \<Rightarrow>
          (case get_USD_value cv c v (year_rule year) of
             Inl err \<Rightarrow> Inl err
           | Inr usd \<Rightarrow>
               (case add_to_bucket type_code (Some ''USD'') (year_rule year) usd out of
                  Inl err \<Rightarrow> Inl err
                | Inr out' \<Rightarrow> usd_years year_rule cv type_code currency rest out')))"

fun usd_currencies ::
  "(int \<Rightarrow> int) \<Rightarrow> rate_table \<Rightarrow> string option \<Rightarrow> by_currency \<Rightarrow> rollup \<Rightarrow> py_error + rollup" where
  "usd_currencies year_rule cv type_code [] out = Inr out"
| "usd_currencies year_rule cv type_code ((currency, years) # rest) out =
     (case usd_years year_rule cv type_code currency years out of
        Inl err \<Rightarrow> Inl err
      | Inr out' \<Rightarrow> usd_currencies year_rule cv type_code rest out')"

fun usd_types :: "(int \<Rightarrow> int) \<Rightarrow> rate_table \<Rightarrow> rollup \<Rightarrow> rollup \<Rightarrow> py_error + rollup" where
  "usd_types year_rule cv [] out = Inr out"
| "usd_types year_rule cv ((type_code, currencies) # rest) out =
     (case usd_currencies year_rule cv type_code currencies out of
        Inl err \<Rightarrow> Inl err
      | Inr out' \<Rightarrow> usd_types year_rule cv rest out')"

definition year_capped_at_2014 :: "int \<Rightarrow> int" where
  "year_capped_at_2014 year = (if 2014 < year then 2014 else year)"

definition sum_transactions_by_type_by_year_usd :: "env \<Rightarrow> activity \<Rightarrow> py_error + rollup" where
  "sum_transactions_by_type_by_year_usd e a =
     (case sum_transactions_by_type_by_year e a of
        Inl err \<Rightarrow> Inl err
      | Inr buckets \<Rightarrow> usd_types year_capped_at_2014 (currency_values e) buckets [])"


text \<open>A roll-up with every year after 2014 relabelled 2014, the items in their order.\<close>
definition cap_years :: "rollup \<Rightarrow> rollup" where
  "cap_years buckets =
     map (\<lambda>(type_code, currencies).
            (type_code,
             map (\<lambda>(currency, years).
                    (currency, map (\<lambda>(year, v). (year_capped_at_2014 year, v)) years))
               currencies))
       buckets"

section \<open>The buckets of a roll-up\<close>





section \<open>The classification rules in the words of the specification\<close>

text \<open>
  Section 4.3 of the specification: a record is current by status when no planned end date
  exists and the activity-status code is one of the two active codes; by a recent actual
  end when an actual end date falls within the trailing twelve months; by a future planned
  end when a planned end date is not in the past.
\<close>
definition current_by_status :: "env \<Rightarrow> activity \<Rightarrow> bool" where
  "current_by_status e a \<longleftrightarrow>
     dates_of_type (planned_end_code e a) a = []
     \<and> (case present (activity_statuses a) of [] \<Rightarrow> False | c # _ \<Rightarrow> c \<in> set [''2'', ''4''])"

definition current_by_recent_actual_end :: "env \<Rightarrow> activity \<Rightarrow> bool" where
  "current_by_recent_actual_end e a \<longleftrightarrow>
     (case add_years (today e) (- 1) of
        Inl err \<Rightarrow> False
      | Inr year_ago \<Rightarrow>
          \<exists>d \<in> set (dates_of_type (actual_end_code e a) a).
            date_le year_ago d \<and> date_le d (today e))"

definition current_by_future_planned_end :: "env \<Rightarrow> activity \<Rightarrow> bool" where
  "current_by_future_planned_end e a \<longleftrightarrow>
     (\<exists>d \<in> set (dates_of_type (planned_end_code e a) a). date_le (today e) d)"

text \<open>
  The denominator contribution of a criterion (section 4.3): the entry of the criterion in
  the denominator mapping when it has one, the default denominator otherwise.
\<close>
definition denominator_for :: "(string \<times> int) list \<Rightarrow> int \<Rightarrow> string \<Rightarrow> int" where
  "denominator_for denominators default_denominator k =
     (case map_of denominators k of None \<Rightarrow> default_denominator | Some d \<Rightarrow> d)"

text \<open>
  What the comprehensiveness bound asks of the entry of a criterion, given the denominator
  mapping of a current record and the test of the criterion: the entry is 0 or 1, is 1 only
  when the test passes, is 0 when the criterion's denominator entry is 0, and is at most
  the criterion's denominator contribution.
\<close>
definition criterion_bounded :: "(string \<times> int) list \<Rightarrow> string \<times> bool \<Rightarrow> string \<times> int \<Rightarrow> bool" where
  "criterion_bounded denominators test entry \<longleftrightarrow>
     fst entry = fst test
     \<and> (snd entry = 0 \<or> snd entry = 1)
     \<and> (snd entry = 1 \<longrightarrow> snd test)
     \<and> (map_of denominators (fst test) = Some 0 \<longrightarrow> snd entry = 0)
     \<and> snd entry \<le> denominator_for denominators 1 (fst test)"

text \<open>
  Claim C8 in its words: the record has a start date, the actual one preferred, else the
  planned one, that lies before the run date and more than 365 days back. The start dates
  of a record are its dated actual start dates when it has one, its dated planned start
  dates otherwise.
\<close>
definition record_start_dates :: "env \<Rightarrow> activity \<Rightarrow> date list" where
  "record_start_dates e a =
     (case dates_of_type (actual_start_code e a) a of
        [] \<Rightarrow> dates_of_type (planned_start_code e a) a
      | d # ds \<Rightarrow> d # ds)"

definition has_start_over_a_year_ago :: "env \<Rightarrow> activity \<Rightarrow> bool" where
  "has_start_over_a_year_ago e a \<longleftrightarrow>
     (\<exists>d \<in> set (record_start_dates e a).
        date_less d (today e) \<and> 365 < toordinal (today e) - toordinal d)"



section \<open>Example data\<close>

definition example_env :: env where
  "example_env =
     \<lparr>today = \<lparr>d_year = 2026, d_month = 11, d_day = 4\<rparr>,
      version_codelist = {''1.01'', ''1.02'', ''1.03'', ''1.04'', ''1.05'', ''2.01'', ''2.02'', ''2.03''},
      currency_values = [''EUR'' \<mapsto> [2014 \<mapsto> Flt (1 / 2)], ''XDR'' \<mapsto> [2013 \<mapsto> Flt 1]]\<rparr>"

definition empty_activity :: activity where
  "empty_activity =
     \<lparr>parent_version = Some (Some ''2.03''),
      humanitarian_attr = None,
      default_currency = None,
      budget_not_provided_attr = None,
      iati_identifiers = [],
      reporting_org_refs = [],
      participating_orgs = [],
      activity_statuses = [],
      activity_dates = [],
      recipient_countries = [],
      sectors = [],
      humanitarian_scopes = [],
      transactions = [],
      budgets = [],
      location_point_pos = [],
      presence = (\<lambda>k. False),
      validated = (\<lambda>k. Inr False)\<rparr>"

definition empty_transaction :: transaction where
  "empty_transaction =
     \<lparr>t_humanitarian = None,
      t_type_codes = [],
      t_values = [],
      t_date = None,
      t_sectors = [],
      t_provider_activity_ids = []\<rparr>"

text \<open>
  A version 2.03 activity flagged not humanitarian, with an emergency-response sector and a
  transaction flagged humanitarian under a humanitarian sector category.
\<close>
definition vetoed_activity :: activity where
  "vetoed_activity =
     empty_activity
       \<lparr>humanitarian_attr := Some ''0'',
        sectors := [\<lparr>sector_vocabulary = None, sector_code = Some ''72010''\<rparr>],
        transactions :=
          [empty_transaction
             \<lparr>t_humanitarian := Some ''1'',
              t_sectors := [\<lparr>sector_vocabulary = Some ''2'', sector_code = Some ''720''\<rparr>]\<rparr>]\<rparr>"

text \<open>
  The scenario of the specification, on 4 November 2026: a planned end one day ago, an actual
  end thirteen months ago, and the status code 3.
\<close>
definition lapsed_activity :: activity where
  "lapsed_activity =
     empty_activity
       \<lparr>activity_statuses := [Some ''3''],
        activity_dates :=
          [\<lparr>ad_type = Some ''3'', ad_iso_date = Some \<lparr>d_year = 2026, d_month = 11, d_day = 3\<rparr>\<rparr>,
           \<lparr>ad_type = Some ''4'', ad_iso_date = Some \<lparr>d_year = 2025, d_month = 10, d_day = 4\<rparr>\<rparr>],
        presence := (\<lambda>k. True)\<rparr>"

text \<open>
  A current activity (status 2, no planned end) that started in 2020, with one disbursement,
  one location point at the origin, and every other presence test passing.
\<close>
definition running_activity :: activity where
  "running_activity =
     empty_activity
       \<lparr>iati_identifiers := [Some ''XM-1''],
        activity_statuses := [Some ''2''],
        activity_dates :=
          [\<lparr>ad_type = Some ''2'', ad_iso_date = Some \<lparr>d_year = 2020, d_month = 1, d_day = 1\<rparr>\<rparr>],
        transactions :=
          [empty_transaction
             \<lparr>t_type_codes := [Some ''3''],
              t_provider_activity_ids := [''XM-1'', ''XM-2'', ''XM-2'']\<rparr>],
        location_point_pos := [Some ''0 0''],
        presence := (\<lambda>k. True),
        validated := (\<lambda>k. Inr True)\<rparr>"

text \<open>
  The same activity with an actual start element that carries no date, followed by a planned
  start on 1 January 2020.
\<close>
definition undated_start_activity :: activity where
  "undated_start_activity =
     running_activity
       \<lparr>activity_dates :=
          [\<lparr>ad_type = Some ''2'', ad_iso_date = None\<rparr>,
           \<lparr>ad_type = Some ''1'', ad_iso_date = Some \<lparr>d_year = 2020, d_month = 1, d_day = 1\<rparr>\<rparr>]\<rparr>"

text \<open>The same activity, started on 1 June 2026: less than a year before the run.\<close>
definition recent_activity :: activity where
  "recent_activity =
     running_activity
       \<lparr>activity_dates :=
          [\<lparr>ad_type = Some ''2'', ad_iso_date = Some \<lparr>d_year = 2026, d_month = 6, d_day = 1\<rparr>\<rparr>]\<rparr>"

text \<open>
  A version 2.03 activity in euros with one disbursement of 100 dated 2015 and one budget of
  100 for 2015; the example table has a euro rate for 2014 only.
\<close>
definition late_activity :: activity where
  "late_activity =
     empty_activity
       \<lparr>default_currency := Some ''EUR'',
        transactions :=
          [empty_transaction
             \<lparr>t_type_codes := [Some ''3''],
              t_values := [\<lparr>value_text = Some ''100'', value_currency = None\<rparr>],
              t_date := Some \<lparr>d_year = 2015, d_month = 3, d_day = 1\<rparr>\<rparr>],
        budgets :=
          [\<lparr>b_type = Some ''1'',
            b_values = [\<lparr>value_text = Some ''100'', value_currency = None\<rparr>],
            b_year = Some 2015\<rparr>]\<rparr>"


section \<open>Properties of the merge\<close>

lemma merge_counter_commute:
  assumes "\<And>x y. f x y = f y x"
  shows "merge_counter f a b = merge_counter f b a"
  by (auto simp: merge_counter_def fun_eq_iff assms split: option.splits)

lemma merge_counter_assoc:
  assumes "\<And>x y z. f (f x y) z = f x (f y z)"
  shows "merge_counter f (merge_counter f a b) c = merge_counter f a (merge_counter f b c)"
  by (auto simp: merge_counter_def fun_eq_iff assms split: option.splits)

lemma merge_counter_empty [simp]:
  "merge_counter f Map.empty a = a" "merge_counter f a Map.empty = a"
  by (auto simp: merge_counter_def fun_eq_iff split: option.splits)

lemma merge_number_commute: "merge_number a b = merge_number b a"
  by (simp add: merge_number_def)

lemma merge_number_assoc: "merge_number (merge_number a b) c = merge_number a (merge_number b c)"
  by (simp add: merge_number_def)

lemmas merge_c1_commute = merge_counter_commute [of merge_number, OF merge_number_commute]
lemmas merge_c1_assoc = merge_counter_assoc [of merge_number, OF merge_number_assoc]
lemmas merge_c2_commute = merge_counter_commute [of "merge_counter merge_number", OF merge_c1_commute]
lemmas merge_c2_assoc = merge_counter_assoc [of "merge_counter merge_number", OF merge_c1_assoc]
lemmas merge_c3_commute =
  merge_counter_commute [of "merge_counter (merge_counter merge_number)", OF merge_c2_commute]
lemmas merge_c3_assoc =
  merge_counter_assoc [of "merge_counter (merge_counter merge_number)", OF merge_c2_assoc]

lemma merge_commute: "merge a b = merge b a"
  by (cases a; cases b)
     (simp_all add: merge_number_commute merge_c1_commute merge_c2_commute merge_c3_commute)

lemma merge_opt_commute: "merge_opt a b = merge_opt b a"
  by (cases a; cases b) (simp_all add: merge_commute)

lemma merge_opt_assoc: "merge_opt (merge_opt a b) c = merge_opt a (merge_opt b c)"
proof (cases a)
  case None
  then show ?thesis by simp
next
  case (Some x)
  note a = this
  show ?thesis
  proof (cases b)
    case None
    then show ?thesis using a by (cases c) simp_all
  next
    case (Some y)
    note b = this
    show ?thesis
    proof (cases c)
      case None
      then show ?thesis using a b by (cases "merge x y") simp_all
    next
      case (Some z)
      then show ?thesis using a b
        by (cases x; cases y; cases z)
           (simp_all add: merge_number_assoc merge_c1_assoc merge_c2_assoc merge_c3_assoc)
    qed
  qed
qed

lemma merge_identity_right: "shape_of a = s \<Longrightarrow> merge a (identity_value s) = Some a"
  by (cases a) (auto simp: merge_number_def)

lemma merge_shape: "merge a b = Some c \<Longrightarrow> shape_of c = shape_of a \<and> shape_of b = shape_of a"
  by (cases a; cases b) auto

lemma merge_same_shape: "shape_of a = shape_of b \<Longrightarrow> \<exists>c. merge a b = Some c \<and> shape_of c = shape_of a"
  by (cases a; cases b) auto

lemma fold_merge_opt_pull:
  "fold merge_opt xs (merge_opt a b) = merge_opt a (fold merge_opt xs b)"
proof (induction xs arbitrary: b)
  case Nil
  then show ?case by simp
next
  case (Cons x xs)
  have "merge_opt x (merge_opt a b) = merge_opt a (merge_opt x b)"
    by (metis merge_opt_assoc merge_opt_commute)
  then show ?case using Cons.IH by simp
qed

lemma foldl_as_fold:
  "foldl (\<lambda>acc x. merge_opt acc (Some x)) z xs = fold merge_opt (map Some xs) z"
  by (induction xs arbitrary: z) (simp_all add: merge_opt_commute)

lemma merge_opt_identity:
  "a = None \<or> (\<exists>x. a = Some x \<and> shape_of x = s) \<Longrightarrow> merge_opt a (Some (identity_value s)) = a"
  by (auto simp: merge_identity_right)

lemma fold_same_shape:
  assumes "\<forall>x \<in> set xs. shape_of x = s" and "shape_of z = s"
  shows "\<exists>r. fold merge_opt (map Some xs) (Some z) = Some r \<and> shape_of r = s"
  using assms
proof (induction xs arbitrary: z)
  case Nil
  then show ?case by simp
next
  case (Cons x xs)
  then have "shape_of x = shape_of z" by simp
  from merge_same_shape [OF this] obtain c where c: "merge x z = Some c" "shape_of c = shape_of x"
    by blast
  with Cons.prems have "shape_of c = s" by simp
  with Cons.IH [of c] Cons.prems c show ?case by simp
qed

lemma identity_value_shape [simp]: "shape_of (identity_value s) = s"
  by (cases s) simp_all

lemma tree_reduce_as_fold:
  assumes "\<forall>x \<in> set (leaves t). shape_of x = s"
  shows "tree_reduce t = fold merge_opt (map Some (leaves t)) (Some (identity_value s))"
  using assms
proof (induction t)
  case (Single x)
  then show ?case by (simp add: merge_identity_right)
next
  case (Pair l r)
  let ?z = "Some (identity_value s)"
  let ?L = "fold merge_opt (map Some (leaves l)) ?z"
  let ?R = "fold merge_opt (map Some (leaves r)) ?z"
  from Pair have l: "tree_reduce l = ?L" and r: "tree_reduce r = ?R" by simp_all
  from Pair.prems have "\<forall>x \<in> set (leaves l). shape_of x = s" by simp
  from fold_same_shape [OF this, of "identity_value s"]
  have "merge_opt ?L ?z = ?L" by (auto simp: merge_identity_right)
  then have "fold merge_opt (map Some (leaves r)) ?L = merge_opt ?L ?R"
    using fold_merge_opt_pull [of "map Some (leaves r)" ?L ?z] by simp
  then show ?case using l r by simp
qed

lemma fold_merge_opt_permute:
  assumes "mset xs = mset ys"
  shows "fold merge_opt (map Some xs) z = fold merge_opt (map Some ys) z"
proof -
  have "mset (map Some xs) = mset (map Some ys)" using assms by simp
  moreover have "\<And>x y. merge_opt x \<circ> merge_opt y = merge_opt y \<circ> merge_opt x"
    by (rule ext) (simp, metis merge_opt_assoc merge_opt_commute)
  ultimately have "fold merge_opt (map Some xs) = fold merge_opt (map Some ys)"
    by (intro fold_multiset_equiv) auto
  then show ?thesis by simp
qed

text \<open>
  Claim C1. The merge of two values is commutative and associative (a merge of two shapes has
  no result, on either side of each equation), and for every sequence of values of one shape
  a tree-reduce over any grouping of the values taken in any order has a result, the result
  of the sequential left fold of the sequence.
\<close>
theorem merge_order_and_grouping_irrelevant:
  "merge a b = merge b a
   \<and> merge_opt (merge a b) (Some c) = merge_opt (Some a) (merge b c)
   \<and> ((\<forall>x \<in> set xs. shape_of x = s) \<and> mset (leaves t) = mset xs \<longrightarrow>
        tree_reduce t = fold_sequential s xs
        \<and> (\<exists>r. fold_sequential s xs = Some r \<and> shape_of r = s))"
proof (intro conjI impI)
  show "merge a b = merge b a" by (rule merge_commute)
  show "merge_opt (merge a b) (Some c) = merge_opt (Some a) (merge b c)"
    using merge_opt_assoc [of "Some a" "Some b" "Some c"] by simp
next
  assume h: "(\<forall>x \<in> set xs. shape_of x = s) \<and> mset (leaves t) = mset xs"
  then have "set (leaves t) = set xs" by (metis set_mset_mset)
  with h have "\<forall>x \<in> set (leaves t). shape_of x = s" by simp
  from tree_reduce_as_fold [OF this] fold_merge_opt_permute [of "leaves t" xs] h
  show "tree_reduce t = fold_sequential s xs"
    by (simp add: fold_sequential_def foldl_as_fold)
  from h fold_same_shape [of xs s "identity_value s"]
  show "\<exists>r. fold_sequential s xs = Some r \<and> shape_of r = s"
    by (simp add: fold_sequential_def foldl_as_fold)
qed

theorem merge_order_and_grouping_irrelevant_witness:
  "list_all (\<lambda>x. shape_of x = ShCounter1)
      [Counter1 [''USD'' \<mapsto> 1], Counter1 [''USD'' \<mapsto> 2, ''EUR'' \<mapsto> 3], Counter1 [''EUR'' \<mapsto> 4]]
   \<and> mset (leaves (Pair (Single (Counter1 [''EUR'' \<mapsto> 4]))
                      (Pair (Single (Counter1 [''USD'' \<mapsto> 1]))
                            (Single (Counter1 [''USD'' \<mapsto> 2, ''EUR'' \<mapsto> 3])))))
       = mset [Counter1 [''USD'' \<mapsto> 1], Counter1 [''USD'' \<mapsto> 2, ''EUR'' \<mapsto> 3], Counter1 [''EUR'' \<mapsto> 4]]
   \<and> tree_reduce (Pair (Single (Counter1 [''EUR'' \<mapsto> 4]))
                      (Pair (Single (Counter1 [''USD'' \<mapsto> 1]))
                            (Single (Counter1 [''USD'' \<mapsto> 2, ''EUR'' \<mapsto> 3]))))
       = fold_sequential ShCounter1
           [Counter1 [''USD'' \<mapsto> 1], Counter1 [''USD'' \<mapsto> 2, ''EUR'' \<mapsto> 3], Counter1 [''EUR'' \<mapsto> 4]]"
  using merge_order_and_grouping_irrelevant
    [of "Number 0" "Number 0" "Number 0"
        "[Counter1 [''USD'' \<mapsto> 1], Counter1 [''USD'' \<mapsto> 2, ''EUR'' \<mapsto> 3], Counter1 [''EUR'' \<mapsto> 4]]"
        ShCounter1
        "Pair (Single (Counter1 [''EUR'' \<mapsto> 4]))
              (Pair (Single (Counter1 [''USD'' \<mapsto> 1]))
                    (Single (Counter1 [''USD'' \<mapsto> 2, ''EUR'' \<mapsto> 3])))"]
  by simp

section \<open>Properties of the currency conversion\<close>

text \<open>
  Claim C2. For every amount (also one that \<^verbatim>\<open>float()\<close> rejects) and every integer year,
  \<^verbatim>\<open>get_USD_value\<close> returns \<^verbatim>\<open>Decimal(0)\<close> and raises nothing when the currency is not in the
  table, when the year is not recorded for the currency, or when the recorded rate is zero.
\<close>
theorem get_USD_value_zero_fallback:
  "cv c = None \<or> (\<exists>rates. cv c = Some rates \<and> (rates year = None \<or> rates year = Some (Flt 0)))
   \<Longrightarrow> get_USD_value cv c amount year = Inr (Dec 0)"
  by (auto simp: get_USD_value_def usd_value_attempt_def)

theorem get_USD_value_zero_fallback_witness:
  "get_USD_value [''EUR'' \<mapsto> [2013 \<mapsto> Flt (1 / 2), 2012 \<mapsto> Flt 0]] ''GBP'' (Dec 100) 2013 = Inr (Dec 0)
   \<and> get_USD_value [''EUR'' \<mapsto> [2013 \<mapsto> Flt (1 / 2), 2012 \<mapsto> Flt 0]] ''EUR'' (Dec 100) 2011 = Inr (Dec 0)
   \<and> get_USD_value [''EUR'' \<mapsto> [2013 \<mapsto> Flt (1 / 2), 2012 \<mapsto> Flt 0]] ''EUR'' DecSNaN 2012 = Inr (Dec 0)"
  using get_USD_value_zero_fallback
          [of "[''EUR'' \<mapsto> [2013 \<mapsto> Flt (1 / 2), 2012 \<mapsto> Flt 0]]" "''GBP''" 2013 "Dec 100"]
        get_USD_value_zero_fallback
          [of "[''EUR'' \<mapsto> [2013 \<mapsto> Flt (1 / 2), 2012 \<mapsto> Flt 0]]" "''EUR''" 2011 "Dec 100"]
        get_USD_value_zero_fallback
          [of "[''EUR'' \<mapsto> [2013 \<mapsto> Flt (1 / 2), 2012 \<mapsto> Flt 0]]" "''EUR''" 2012 DecSNaN]
  by simp

section \<open>Properties of the humanitarian classification\<close>

text \<open>
  Claim C3. For a record whose \<^verbatim>\<open>humanitarian\<close> attribute is \<^verbatim>\<open>0\<close> or \<^verbatim>\<open>false\<close>, the
  \<^verbatim>\<open>is_humanitarian\<close> entry of the \<^verbatim>\<open>humanitarian\<close> statistic is 0, whatever the flags of its
  transactions and the sector codes of the record and of its transactions.
\<close>
theorem not_humanitarian_flag_vetoes:
  "humanitarian_attr a = Some ''0'' \<or> humanitarian_attr a = Some ''false''
   \<Longrightarrow> map_of (humanitarian e a) ''is_humanitarian'' = Some 0"
  by (auto simp: humanitarian_def is_humanitarian_def is_not_humanitarian_by_attrib_activity_def
        Let_def)

theorem not_humanitarian_flag_vetoes_witness:
  "humanitarian_attr vetoed_activity = Some ''0''
   \<and> is_humanitarian_by_attrib_transaction vetoed_activity
   \<and> is_humanitarian_by_sector example_env vetoed_activity
   \<and> map_of (humanitarian example_env vetoed_activity) ''is_humanitarian'' = Some 0"
proof -
  have flag: "humanitarian_attr vetoed_activity = Some ''0''"
    by (simp add: vetoed_activity_def empty_activity_def)
  have by_transaction: "is_humanitarian_by_attrib_transaction vetoed_activity"
    by (simp add: is_humanitarian_by_attrib_transaction_def intersects_def present_def
          vetoed_activity_def empty_activity_def empty_transaction_def)
  have "major_version example_env vetoed_activity = ''2''"
    by (simp add: major_version_def version_def vetoed_activity_def empty_activity_def
          example_env_def)
  then have by_sector: "is_humanitarian_by_sector example_env vetoed_activity"
    by (simp add: is_humanitarian_by_sector_def is_humanitarian_by_sector_5_digit_activity_def
          dac_5_code_def codes_vocabulary_or_none_def present_def intersects_def
          humanitarian_sectors_dac_5_digit_def vetoed_activity_def empty_activity_def)
  from flag by_transaction by_sector
    not_humanitarian_flag_vetoes [of vetoed_activity example_env]
  show ?thesis by simp
qed

section \<open>Properties of the provider activity identifiers\<close>

lemma map_of_set_item: "map_of (set_item k v m) = (map_of m)(k \<mapsto> v)"
  by (induction m) (auto simp: fun_eq_iff)

lemma keys_set_item: "fst ` set (set_item k v m) = insert k (fst ` set m)"
  by (induction m) auto

lemma map_of_count_step:
  "map_of (foldl (\<lambda>m x. set_item x ((case map_of m x of None \<Rightarrow> 0 | Some c \<Rightarrow> c) + 1) m) m0 xs) k =
     (if k \<in> set xs
      then Some ((case map_of m0 k of None \<Rightarrow> 0 | Some c \<Rightarrow> c) + int (count_list xs k))
      else map_of m0 k)"
proof (induction xs arbitrary: m0)
  case Nil
  then show ?case by simp
next
  case (Cons x xs)
  show ?case
    by (simp add: Cons.IH map_of_set_item split: option.splits)
qed

lemma map_of_Counter:
  "map_of (Counter xs) k = (if k \<in> set xs then Some (int (count_list xs k)) else None)"
  by (simp add: Counter_def map_of_count_step)

lemma map_of_del_item: "map_of (del_item k d) k' = (if k' = k then None else map_of d k')"
  by (induction d) (auto simp: del_item_def)

lemma keys_del_item: "fst ` set (del_item k d) = fst ` set d - {k}"
  by (auto simp: del_item_def)

text \<open>
  Claim C10. The \<^verbatim>\<open>provider_activity_id\<close> counter of a record never has the record's own
  identifier as a key; every other provider activity identifier of its transactions keeps
  its number of occurrences.
\<close>
theorem provider_activity_id_without_own_identifier:
  "iati_identifier a = Some own \<Longrightarrow>
     own \<notin> fst ` set (provider_activity_id a)
     \<and> (\<forall>k. k \<noteq> own \<longrightarrow>
            map_of (provider_activity_id a) k =
              (if k \<in> set (concat (map t_provider_activity_ids (transactions a)))
               then Some (int (count_list (concat (map t_provider_activity_ids (transactions a))) k))
               else None))"
  by (auto simp: provider_activity_id_def Let_def keys_del_item map_of_del_item map_of_Counter)

theorem provider_activity_id_without_own_identifier_witness:
  "iati_identifier running_activity = Some ''XM-1''
   \<and> ''XM-1'' \<in> set (concat (map t_provider_activity_ids (transactions running_activity)))
   \<and> ''XM-1'' \<notin> fst ` set (provider_activity_id running_activity)
   \<and> map_of (provider_activity_id running_activity) ''XM-2'' = Some 2"
proof -
  have own: "iati_identifier running_activity = Some ''XM-1''"
    by (simp add: iati_identifier_def running_activity_def empty_activity_def)
  have ids: "concat (map t_provider_activity_ids (transactions running_activity))
             = [''XM-1'', ''XM-2'', ''XM-2'']"
    by (simp add: running_activity_def empty_activity_def empty_transaction_def)
  from provider_activity_id_without_own_identifier [OF own] own ids
  show ?thesis by simp
qed

section \<open>Properties of the comprehensiveness scoring\<close>

lemma add_years_in_range:
  "1 \<le> d_year d + years \<Longrightarrow> d_year d + years \<le> 9999 \<Longrightarrow> \<exists>d'. add_years d years = Inr d'"
  by (simp add: add_years_def Let_def)

lemma ended_within_last_year_eq:
  "add_years now (- 1) = Inr year_ago \<Longrightarrow>
     ended_within_last_year now ds = Inr (\<exists>d \<in> set ds. date_le year_ago d \<and> date_le d now)"
  by (induction ds) auto

lemma is_current_by_rules:
  assumes "1 < d_year (today e)" and "d_year (today e) \<le> 9999"
  shows "comprehensiveness_is_current e a =
           Inr (current_by_status e a \<or> current_by_recent_actual_end e a
                \<or> current_by_future_planned_end e a)"
proof -
  from assms add_years_in_range [of "today e" "- 1"]
  obtain year_ago where y: "add_years (today e) (- 1) = Inr year_ago" by auto
  show ?thesis
    by (auto simp: comprehensiveness_is_current_def comprehensiveness_current_activity_status_def
          current_by_status_def current_by_recent_actual_end_def
          current_by_future_planned_end_def Let_def y ended_within_last_year_eq [OF y]
          split: list.splits bool.splits)
qed

text \<open>
  Claim C4, as amended. On a run date with a year from 2 to 9999, a record that fails the
  three rules is classified non-current; its \<^verbatim>\<open>comprehensiveness\<close> and
  \<^verbatim>\<open>comprehensiveness_with_validation\<close> mappings are empty, while its per-criterion
  denominator mapping keeps the three entries, each 0, and its default denominator is 0.
\<close>
theorem non_current_outputs:
  assumes "1 < d_year (today e)" and "d_year (today e) \<le> 9999"
    and "\<not> current_by_status e a"
    and "\<not> current_by_recent_actual_end e a"
    and "\<not> current_by_future_planned_end e a"
  shows "comprehensiveness_is_current e a = Inr False
     \<and> comprehensiveness e a = Inr []
     \<and> comprehensiveness_with_validation e a = Inr []
     \<and> comprehensiveness_denominators e a =
         Inr [(''recipient_language'', 0), (''transaction_spend'', 0),
              (''transaction_traceability'', 0)]
     \<and> comprehensiveness_denominator_default e a = Inr 0"
proof -
  from assms have "comprehensiveness_is_current e a = Inr False"
    by (simp add: is_current_by_rules)
  then show ?thesis
    by (simp add: comprehensiveness_def comprehensiveness_with_validation_def
          comprehensiveness_denominators_def comprehensiveness_denominator_default_def)
qed

lemma lapsed_activity_major_version: "major_version example_env lapsed_activity = ''2''"
  by (simp add: major_version_def version_def lapsed_activity_def empty_activity_def
        example_env_def)

lemma example_year_ago:
  "add_years (today example_env) (- 1) = Inr \<lparr>d_year = 2025, d_month = 11, d_day = 4\<rparr>"
  by (simp add: add_years_def example_env_def days_in_month_def is_leap_def)

lemma lapsed_activity_end_dates:
  "dates_of_type (planned_end_code example_env lapsed_activity) lapsed_activity
     = [\<lparr>d_year = 2026, d_month = 11, d_day = 3\<rparr>]"
  "dates_of_type (actual_end_code example_env lapsed_activity) lapsed_activity
     = [\<lparr>d_year = 2025, d_month = 10, d_day = 4\<rparr>]"
  by (simp_all add: planned_end_code_def actual_end_code_def lapsed_activity_major_version)
     (simp_all add: dates_of_type_def present_def lapsed_activity_def empty_activity_def)

lemma lapsed_activity_fails_rules:
  "\<not> current_by_status example_env lapsed_activity
   \<and> \<not> current_by_recent_actual_end example_env lapsed_activity
   \<and> \<not> current_by_future_planned_end example_env lapsed_activity"
  by (simp add: current_by_status_def current_by_recent_actual_end_def
        current_by_future_planned_end_def example_year_ago lapsed_activity_end_dates
        date_le_def date_less_def)
     (simp add: example_env_def)

theorem non_current_outputs_witness:
  "1 < d_year (today example_env) \<and> d_year (today example_env) \<le> 9999
   \<and> \<not> current_by_status example_env lapsed_activity
   \<and> \<not> current_by_recent_actual_end example_env lapsed_activity
   \<and> \<not> current_by_future_planned_end example_env lapsed_activity
   \<and> comprehensiveness_is_current example_env lapsed_activity = Inr False
   \<and> comprehensiveness example_env lapsed_activity = Inr []
   \<and> comprehensiveness_with_validation example_env lapsed_activity = Inr []
   \<and> comprehensiveness_denominators example_env lapsed_activity =
       Inr [(''recipient_language'', 0), (''transaction_spend'', 0),
            (''transaction_traceability'', 0)]
   \<and> comprehensiveness_denominator_default example_env lapsed_activity = Inr 0"
proof -
  have year: "1 < d_year (today example_env)" "d_year (today example_env) \<le> 9999"
    by (simp_all add: example_env_def)
  from lapsed_activity_fails_rules
  have rules: "\<not> current_by_status example_env lapsed_activity"
    "\<not> current_by_recent_actual_end example_env lapsed_activity"
    "\<not> current_by_future_planned_end example_env lapsed_activity"
    by simp_all
  from non_current_outputs [OF year rules] year rules show ?thesis by simp
qed

text \<open>
  Claim C4 as stated fails: the lapsed record of the scenario fails the three rules, and its
  denominator mapping has three entries and its default denominator is the number 0.
\<close>
theorem non_current_denominators_present:
  "\<not> current_by_status example_env lapsed_activity
   \<and> \<not> current_by_recent_actual_end example_env lapsed_activity
   \<and> \<not> current_by_future_planned_end example_env lapsed_activity
   \<and> comprehensiveness_denominators example_env lapsed_activity =
       Inr [(''recipient_language'', 0), (''transaction_spend'', 0),
            (''transaction_traceability'', 0)]
   \<and> comprehensiveness_denominators example_env lapsed_activity \<noteq> Inr []
   \<and> comprehensiveness_denominator_default example_env lapsed_activity = Inr 0"
proof -
  have year: "1 < d_year (today example_env)" "d_year (today example_env) \<le> 9999"
    by (simp_all add: example_env_def)
  from lapsed_activity_fails_rules is_current_by_rules [OF year, of lapsed_activity]
  have "comprehensiveness_is_current example_env lapsed_activity = Inr False"
    by simp
  with lapsed_activity_fails_rules show ?thesis
    by (simp add: comprehensiveness_denominators_def comprehensiveness_denominator_default_def)
qed

lemma numerators_bounded:
  assumes "\<And>k d. map_of ds k = Some d \<Longrightarrow> d = 0 \<or> d = 1"
  shows "list_all2 (criterion_bounded ds) bools (numerators bools ds)"
  unfolding numerators_def list_all2_map2
proof (rule list_all2_refl)
  fix x :: "string \<times> bool"
  obtain k v where x: "x = (k, v)" by (cases x)
  show "criterion_bounded ds x
          (case x of (k, v) \<Rightarrow>
             (k, if v \<and> (case map_of ds k of None \<Rightarrow> True | Some d \<Rightarrow> d \<noteq> 0) then 1 else 0))"
  proof (cases "map_of ds k")
    case None
    then show ?thesis by (simp add: x criterion_bounded_def denominator_for_def)
  next
    case (Some d)
    with assms have "d = 0 \<or> d = 1" by blast
    with Some show ?thesis by (auto simp: x criterion_bounded_def denominator_for_def)
  qed
qed

lemma current_denominators:
  assumes "comprehensiveness_is_current e a = Inr True"
  shows "\<exists>l s t. comprehensiveness_denominators e a =
                   Inr [(''recipient_language'', l), (''transaction_spend'', s),
                        (''transaction_traceability'', t)]
                 \<and> (l = 0 \<or> l = 1) \<and> (t = 0 \<or> t = 1)
                 \<and> s = (case start_date e a of
                          None \<Rightarrow> 0
                        | Some d \<Rightarrow>
                            if date_less d (today e) \<and> 365 < toordinal (today e) - toordinal d
                            then 1 else 0)"
  using assms by (simp add: comprehensiveness_denominators_def)

text \<open>
  Claim C5. For a current record the default denominator is 1 and the denominator mapping
  is returned; whenever the tests of \<^verbatim>\<open>comprehensiveness\<close> (of
  \<^verbatim>\<open>comprehensiveness_with_validation\<close>) evaluate, the mapping is returned with one entry
  per test, in the same order, and every entry is 0 or 1, is 1 only when the test passes, is
  0 when the criterion has a denominator entry equal to 0, and is at most the denominator
  contribution of the criterion.
\<close>
theorem comprehensiveness_numerator_bounded:
  assumes "comprehensiveness_is_current e a = Inr True"
  shows "comprehensiveness_denominator_default e a = Inr 1
     \<and> (\<exists>ds. comprehensiveness_denominators e a = Inr ds
          \<and> (\<forall>bools. comprehensiveness_bools e a = Inr bools \<longrightarrow>
                (\<exists>m. comprehensiveness e a = Inr m \<and> list_all2 (criterion_bounded ds) bools m))
          \<and> (\<forall>bools. comprehensiveness_with_validation_bools e a = Inr bools \<longrightarrow>
                (\<exists>m. comprehensiveness_with_validation e a = Inr m
                     \<and> list_all2 (criterion_bounded ds) bools m)))"
proof -
  from current_denominators [OF assms]
  obtain l s t where ds: "comprehensiveness_denominators e a =
      Inr [(''recipient_language'', l), (''transaction_spend'', s),
           (''transaction_traceability'', t)]"
    and l: "l = 0 \<or> l = 1" and t: "t = 0 \<or> t = 1"
    and s: "s = (case start_date e a of
                   None \<Rightarrow> 0
                 | Some d \<Rightarrow>
                     if date_less d (today e) \<and> 365 < toordinal (today e) - toordinal d
                     then 1 else 0)"
    by blast
  let ?ds = "[(''recipient_language'', l), (''transaction_spend'', s),
              (''transaction_traceability'', t)]"
  from s have s01: "s = 0 \<or> s = 1" by (simp split: option.splits)
  have entries: "\<And>k d. map_of ?ds k = Some d \<Longrightarrow> d = 0 \<or> d = 1"
    using l t s01 by (auto split: if_splits)
  note bounded = numerators_bounded [of ?ds, OF entries]
  have "comprehensiveness_denominator_default e a = Inr 1"
    using assms by (simp add: comprehensiveness_denominator_default_def)
  moreover have "\<forall>bools. comprehensiveness_bools e a = Inr bools \<longrightarrow>
      (\<exists>m. comprehensiveness e a = Inr m \<and> list_all2 (criterion_bounded ?ds) bools m)"
    using assms ds bounded by (simp add: comprehensiveness_def)
  moreover have "\<forall>bools. comprehensiveness_with_validation_bools e a = Inr bools \<longrightarrow>
      (\<exists>m. comprehensiveness_with_validation e a = Inr m
           \<and> list_all2 (criterion_bounded ?ds) bools m)"
    using assms ds bounded by (simp add: comprehensiveness_with_validation_def)
  ultimately show ?thesis using ds by blast
qed

lemma running_activity_major_version:
  "major_version example_env running_activity = ''2''"
  "major_version example_env recent_activity = ''2''"
  by (simp_all add: major_version_def version_def recent_activity_def running_activity_def
        empty_activity_def example_env_def)

lemma running_activity_current:
  "comprehensiveness_is_current example_env running_activity = Inr True"
  "comprehensiveness_is_current example_env recent_activity = Inr True"
  by (simp_all add: comprehensiveness_is_current_def
        comprehensiveness_current_activity_status_def dates_of_type_def present_def
        planned_end_code_def actual_end_code_def running_activity_major_version)
     (simp_all add: recent_activity_def running_activity_def empty_activity_def)

lemma comprehensiveness_bools_returns:
  "budget_not_provided_attr a \<noteq> Some None \<Longrightarrow> \<exists>bools. comprehensiveness_bools e a = Inr bools"
  by (cases "budget_not_provided_attr a")
     (auto simp: comprehensiveness_bools_def budget_not_provided_def split: option.splits)

lemma running_activity_bools_return:
  "\<exists>bools. comprehensiveness_bools example_env running_activity = Inr bools"
  "\<exists>bools. comprehensiveness_bools example_env recent_activity = Inr bools"
  by (rule comprehensiveness_bools_returns,
      simp add: recent_activity_def running_activity_def empty_activity_def)+

lemma running_activity_validated:
  "validated running_activity = (\<lambda>k. Inr True)"
  "validated recent_activity = (\<lambda>k. Inr True)"
  by (simp_all add: recent_activity_def running_activity_def empty_activity_def)

lemma running_activity_validation_bools_return:
  "\<exists>bools. comprehensiveness_with_validation_bools example_env running_activity = Inr bools"
  "\<exists>bools. comprehensiveness_with_validation_bools example_env recent_activity = Inr bools"
  using running_activity_bools_return
  by (auto simp: comprehensiveness_with_validation_bools_def validation_updates_def
        running_activity_validated)

theorem comprehensiveness_numerator_bounded_witness:
  "comprehensiveness_is_current example_env running_activity = Inr True
   \<and> comprehensiveness_denominator_default example_env running_activity = Inr 1
   \<and> (\<exists>ds bools m. comprehensiveness_denominators example_env running_activity = Inr ds
          \<and> comprehensiveness_bools example_env running_activity = Inr bools
          \<and> comprehensiveness example_env running_activity = Inr m
          \<and> list_all2 (criterion_bounded ds) bools m)
   \<and> (\<exists>ds bools m. comprehensiveness_denominators example_env running_activity = Inr ds
          \<and> comprehensiveness_with_validation_bools example_env running_activity = Inr bools
          \<and> comprehensiveness_with_validation example_env running_activity = Inr m
          \<and> list_all2 (criterion_bounded ds) bools m)"
  using comprehensiveness_numerator_bounded [OF running_activity_current(1)]
    running_activity_current(1) running_activity_bools_return(1)
    running_activity_validation_bools_return(1)
  by metis





lemma map_of_numerators:
  "map_of (numerators bools ds) k =
     (case map_of bools k of
        None \<Rightarrow> None
      | Some v \<Rightarrow>
          Some (if v \<and> (case map_of ds k of None \<Rightarrow> True | Some d \<Rightarrow> d \<noteq> 0) then 1 else 0))"
  by (induction bools) (auto simp: numerators_def)









lemma undated_start_activity_major_version:
  "major_version example_env undated_start_activity = ''2''"
  by (simp add: major_version_def version_def undated_start_activity_def running_activity_def
        empty_activity_def example_env_def)

lemma undated_start_activity_fields:
  "activity_statuses undated_start_activity = [Some ''2'']"
  "activity_dates undated_start_activity =
     [\<lparr>ad_type = Some ''2'', ad_iso_date = None\<rparr>,
      \<lparr>ad_type = Some ''1'', ad_iso_date = Some \<lparr>d_year = 2020, d_month = 1, d_day = 1\<rparr>\<rparr>]"
  by (simp_all add: undated_start_activity_def running_activity_def empty_activity_def)

lemma undated_start_activity_current:
  "comprehensiveness_is_current example_env undated_start_activity = Inr True"
  by (simp add: comprehensiveness_is_current_def comprehensiveness_current_activity_status_def
        dates_of_type_def present_def planned_end_code_def actual_end_code_def
        undated_start_activity_major_version undated_start_activity_fields)

lemma undated_start_activity_start_dates:
  "record_start_dates example_env undated_start_activity
     = [\<lparr>d_year = 2020, d_month = 1, d_day = 1\<rparr>]"
  "start_date example_env undated_start_activity = None"
  by (simp_all add: record_start_dates_def start_date_def dates_of_type_def present_def
        actual_start_code_def planned_start_code_def undated_start_activity_major_version
        undated_start_activity_fields)

lemma undated_start_activity_has_start:
  "has_start_over_a_year_ago example_env undated_start_activity"
  by (simp add: has_start_over_a_year_ago_def undated_start_activity_start_dates)
     (simp add: example_env_def date_less_def toordinal_def days_before_year_def
        days_before_month_def is_leap_def)

lemma undated_start_activity_traceability:
  "transactions_of_type [incoming_funds_code example_env undated_start_activity, ''11'', ''13'']
     undated_start_activity = []"
  "\<not> is_donor_publisher example_env undated_start_activity"
  "length (recipient_countries undated_start_activity) \<noteq> 1"
  by (simp_all add: incoming_funds_code_def undated_start_activity_major_version
        is_donor_publisher_def)
     (simp_all add: transactions_of_type_def intersects_def present_def
        undated_start_activity_def running_activity_def empty_activity_def
        empty_transaction_def)

text \<open>
  Claim C8 as stated fails: a current record whose first actual start element carries no
  date and whose planned start is 1 January 2020 has a start date more than 365 days before
  4 November 2026, and its \<^verbatim>\<open>transaction_spend\<close> denominator entry is 0.
\<close>
theorem undated_actual_start_hides_planned_start:
  "comprehensiveness_is_current example_env undated_start_activity = Inr True
   \<and> record_start_dates example_env undated_start_activity
       = [\<lparr>d_year = 2020, d_month = 1, d_day = 1\<rparr>]
   \<and> has_start_over_a_year_ago example_env undated_start_activity
   \<and> comprehensiveness_denominators example_env undated_start_activity =
       Inr [(''recipient_language'', 0), (''transaction_spend'', 0),
            (''transaction_traceability'', 0)]"
  using undated_start_activity_current undated_start_activity_start_dates
    undated_start_activity_has_start undated_start_activity_traceability
  by (simp add: comprehensiveness_denominators_def)

section \<open>Properties of the coordinate validation\<close>

lemma sign_not_Plus: "s \<noteq> Plus \<longleftrightarrow> s = Minus"
  by (cases s) simp_all

lemma coords_in_range_finite:
  "coords_in_range c0 c1 = Some True \<longleftrightarrow>
     (\<exists>lat lng. Decimal_of_string c0 = Some (Dec lat) \<and> Decimal_of_string c1 = Some (Dec lng)
        \<and> \<not> (lat = 0 \<and> lng = 0)
        \<and> - 90 \<le> lat \<and> lat \<le> 90 \<and> - 180 \<le> lng \<and> lng \<le> 180)"
proof (cases "Decimal_of_string c0")
  case None
  then show ?thesis by (simp add: coords_in_range_def)
next
  case lat: (Some lat)
  show ?thesis
  proof (cases "Decimal_of_string c1")
    case None
    then show ?thesis by (simp add: coords_in_range_def lat)
  next
    case lng: (Some lng)
    show ?thesis
    proof (cases lat)
      case (Dec r)
      then show ?thesis
        by (cases lng)
           (auto simp: coords_in_range_def lat lng and_then_def or_else_def sign_not_Plus
              split: bool.splits option.splits)
    next
      case (DecInf s)
      then show ?thesis
        by (cases lng; cases s)
           (auto simp: coords_in_range_def lat lng and_then_def or_else_def sign_not_Plus
              split: bool.splits option.splits)
    next
      case DecNaN
      then show ?thesis
        by (cases lng)
           (auto simp: coords_in_range_def lat lng and_then_def or_else_def sign_not_Plus
              split: bool.splits option.splits)
    next
      case DecSNaN
      then show ?thesis
        by (cases lng)
           (auto simp: coords_in_range_def lat lng and_then_def or_else_def sign_not_Plus
              split: bool.splits option.splits)
    qed
  qed
qed

lemma length_two: "length xs = 2 \<longleftrightarrow> (\<exists>a b. xs = [a, b])"
  by (cases xs; cases "tl xs") auto

lemma valid_coords_iff:
  "valid_coords x \<longleftrightarrow>
     (\<exists>s c0 c1 lat lng. x = Some s \<and> split_space s = [c0, c1]
        \<and> Decimal_of_string c0 = Some (Dec lat) \<and> Decimal_of_string c1 = Some (Dec lng)
        \<and> \<not> (lat = 0 \<and> lng = 0)
        \<and> - 90 \<le> lat \<and> lat \<le> 90 \<and> - 180 \<le> lng \<and> lng \<le> 180)"
proof (cases x)
  case None
  then show ?thesis by (simp add: valid_coords_def)
next
  case (Some s)
  show ?thesis
  proof (cases "length (split_space s) = 2")
    case False
    then have "\<And>c0 c1. split_space s \<noteq> [c0, c1]" by auto
    with False show ?thesis by (simp add: valid_coords_def Some)
  next
    case True
    then obtain c0 c1 where c: "split_space s = [c0, c1]" by (auto simp: length_two)
    have "valid_coords x \<longleftrightarrow> coords_in_range c0 c1 = Some True"
      by (auto simp: valid_coords_def Some c split: option.splits)
    then show ?thesis by (simp add: coords_in_range_finite Some c)
  qed
qed

lemma evaluate_items_lookup:
  "evaluate_items xs = Inr vs \<Longrightarrow> map_of xs k = Some (Inr v) \<Longrightarrow> map_of vs k = Some v"
  by (induction xs arbitrary: vs) (auto split: sum.splits if_splits)

lemma evaluate_items_keys: "evaluate_items xs = Inr vs \<Longrightarrow> map fst vs = map fst xs"
  by (induction xs arbitrary: vs) (auto split: sum.splits)

lemma map_of_update_items_other:
  "k \<notin> fst ` set u \<Longrightarrow> map_of (update_items d u) k = map_of d k"
proof (induction u arbitrary: d)
  case Nil
  then show ?case by (simp add: update_items_def)
next
  case (Cons p u)
  obtain k' v' where p: "p = (k', v')" by (cases p)
  from Cons.prems Cons.IH [of "set_item k' v' d"] show ?case
    by (auto simp: update_items_def p map_of_set_item)
qed

lemma map_of_update_items_distinct:
  "distinct (map fst u) \<Longrightarrow> map_of u k = Some v \<Longrightarrow> map_of (update_items d u) k = Some v"
proof (induction u arbitrary: d)
  case Nil
  then show ?case by simp
next
  case (Cons p u)
  obtain k' v' where p: "p = (k', v')" by (cases p)
  show ?case
  proof (cases "k = k'")
    case True
    with Cons.prems p have "k \<notin> fst ` set u" and "v' = v" by auto
    with map_of_update_items_other [of k u "set_item k' v' d"] True show ?thesis
      by (simp add: update_items_def p map_of_set_item)
  next
    case False
    with Cons.prems p have "distinct (map fst u)" and "map_of u k = Some v" by auto
    from Cons.IH [OF this, of "set_item k' v' d"] show ?thesis
      by (simp add: update_items_def p)
  qed
qed

lemma validation_updates_keys:
  "map fst (validation_updates e a) =
     [''version'', ''iati-identifier'', ''participating-org'', ''activity-status'',
      ''activity-date'', ''sector'', ''country_or_region'', ''transaction_commitment'',
      ''transaction_spend'', ''transaction_currency'', ''budget'', ''budget_not_provided'',
      ''location_point_pos'', ''sector_dac'', ''document-link'', ''activity-website'',
      ''aid_type'']"
  by (simp add: validation_updates_def)

lemma validation_updates_location_point_pos:
  "map_of (validation_updates e a) ''location_point_pos''
     = Some (Inr (all_true_and_not_empty (map valid_coords (location_point_pos a))))"
  by (simp add: validation_updates_def)

lemma validation_bools_location_point_pos:
  assumes "comprehensiveness_with_validation_bools e a = Inr bools"
  shows "map_of bools ''location_point_pos''
           = Some (all_true_and_not_empty (map valid_coords (location_point_pos a)))"
proof -
  let ?v = "all_true_and_not_empty (map valid_coords (location_point_pos a))"
  from assms obtain b u where bools: "bools = update_items b u"
    and u: "evaluate_items (validation_updates e a) = Inr u"
    by (auto simp: comprehensiveness_with_validation_bools_def split: sum.splits)
  from evaluate_items_keys [OF u] have "distinct (map fst u)"
    by (simp add: validation_updates_keys)
  moreover from evaluate_items_lookup [OF u validation_updates_location_point_pos]
  have "map_of u ''location_point_pos'' = Some ?v" .
  ultimately show ?thesis by (simp add: bools map_of_update_items_distinct)
qed

text \<open>
  Claim C9. \<^verbatim>\<open>valid_coords\<close> accepts a text only when it is two finite decimal numbers
  separated by a single space, not both zero, with the latitude in [-90, 90] and the
  longitude in [-180, 180]; it returns False for every other text and for a missing text. So
  for a record whose only location point is \<^verbatim>\<open>0 0\<close> the \<^verbatim>\<open>location_point_pos\<close> validity test
  fails, and the entry of a current such record in \<^verbatim>\<open>comprehensiveness_with_validation\<close> is 0.
\<close>
theorem valid_coords_rejects_origin_and_out_of_range:
  "(valid_coords x \<longleftrightarrow>
      (\<exists>s c0 c1 lat lng. x = Some s \<and> split_space s = [c0, c1]
         \<and> Decimal_of_string c0 = Some (Dec lat) \<and> Decimal_of_string c1 = Some (Dec lng)
         \<and> \<not> (lat = 0 \<and> lng = 0)
         \<and> - 90 \<le> lat \<and> lat \<le> 90 \<and> - 180 \<le> lng \<and> lng \<le> 180))
   \<and> (location_point_pos a = [Some ''0 0''] \<longrightarrow>
        (\<forall>bools. comprehensiveness_with_validation_bools e a = Inr bools \<longrightarrow>
           map_of bools ''location_point_pos'' = Some False)
        \<and> (\<forall>m. comprehensiveness_is_current e a = Inr True
                \<and> comprehensiveness_with_validation e a = Inr m \<longrightarrow>
              map_of m ''location_point_pos'' = Some 0))"
proof (intro conjI impI allI)
  show "valid_coords x \<longleftrightarrow>
      (\<exists>s c0 c1 lat lng. x = Some s \<and> split_space s = [c0, c1]
         \<and> Decimal_of_string c0 = Some (Dec lat) \<and> Decimal_of_string c1 = Some (Dec lng)
         \<and> \<not> (lat = 0 \<and> lng = 0)
         \<and> - 90 \<le> lat \<and> lat \<le> 90 \<and> - 180 \<le> lng \<and> lng \<le> 180)"
    by (rule valid_coords_iff)
next
  have origin: "\<not> valid_coords (Some ''0 0'')" by code_simp
  {
    fix bools
    assume pos: "location_point_pos a = [Some ''0 0'']"
      and b: "comprehensiveness_with_validation_bools e a = Inr bools"
    from validation_bools_location_point_pos [OF b] pos origin
    show "map_of bools ''location_point_pos'' = Some False"
      by (simp add: all_true_and_not_empty_def)
  }
  note failed = this
  {
    fix m
    assume pos: "location_point_pos a = [Some ''0 0'']"
      and m: "comprehensiveness_is_current e a = Inr True
              \<and> comprehensiveness_with_validation e a = Inr m"
    then obtain bools ds where b: "comprehensiveness_with_validation_bools e a = Inr bools"
      and "m = numerators bools ds"
      by (auto simp: comprehensiveness_with_validation_def split: sum.splits)
    with failed [OF pos b] show "map_of m ''location_point_pos'' = Some 0"
      by (simp add: map_of_numerators)
  }
qed

lemma with_validation_returns:
  assumes "comprehensiveness_is_current e a = Inr True"
    and "comprehensiveness_with_validation_bools e a = Inr bools"
  shows "\<exists>m. comprehensiveness_with_validation e a = Inr m"
  using assms current_denominators [OF assms(1)]
  by (auto simp: comprehensiveness_with_validation_def)

theorem valid_coords_rejects_origin_and_out_of_range_witness:
  "location_point_pos running_activity = [Some ''0 0'']
   \<and> \<not> valid_coords (Some ''0 0'')
   \<and> comprehensiveness_is_current example_env running_activity = Inr True
   \<and> (\<exists>bools m. comprehensiveness_with_validation_bools example_env running_activity = Inr bools
          \<and> map_of bools ''location_point_pos'' = Some False
          \<and> comprehensiveness_with_validation example_env running_activity = Inr m
          \<and> map_of m ''location_point_pos'' = Some 0)"
proof -
  have pos: "location_point_pos running_activity = [Some ''0 0'']"
    by (simp add: running_activity_def empty_activity_def)
  have origin: "\<not> valid_coords (Some ''0 0'')" by code_simp
  from running_activity_validation_bools_return(1)
  obtain bools where b: "comprehensiveness_with_validation_bools example_env running_activity = Inr bools"
    by blast
  from with_validation_returns [OF running_activity_current(1) b]
  obtain m where m: "comprehensiveness_with_validation example_env running_activity = Inr m"
    by blast
  from valid_coords_rejects_origin_and_out_of_range
         [of "Some ''0 0''" running_activity example_env]
    pos b m running_activity_current(1)
  have "map_of bools ''location_point_pos'' = Some False"
    and "map_of m ''location_point_pos'' = Some 0"
    by blast+
  with pos origin b m running_activity_current(1) show ?thesis by blast
qed

section \<open>Properties of the USD roll-ups\<close>

lemma usd_years_capped:
  "usd_years year_capped_at_2014 cv type_code currency years out =
     usd_years (\<lambda>year. year) cv type_code currency
       (map (\<lambda>(year, v). (year_capped_at_2014 year, v)) years) out"
  by (induction years arbitrary: out) (auto split: option.splits sum.splits)

lemma usd_currencies_capped:
  "usd_currencies year_capped_at_2014 cv type_code currencies out =
     usd_currencies (\<lambda>year. year) cv type_code
       (map (\<lambda>(currency, years).
               (currency, map (\<lambda>(year, v). (year_capped_at_2014 year, v)) years))
          currencies) out"
  by (induction currencies arbitrary: out) (auto simp: usd_years_capped split: sum.splits)

lemma usd_types_capped:
  "usd_types year_capped_at_2014 cv buckets out = usd_types (\<lambda>year. year) cv (cap_years buckets) out"
  by (induction buckets arbitrary: out)
     (auto simp: cap_years_def usd_currencies_capped split: sum.splits)

text \<open>
  Claim C7, as amended. The transaction USD roll-up replaces every year after 2014 by 2014
  before the conversion, whatever years the table covers: it is the roll-up without any
  clamp of the buckets relabelled so, and an entry dated after 2014 is converted at the 2014
  rate and added to the 2014 sum. The conversion itself does not clamp: for a currency of
  the table and a year that the table does not record for it, it returns zero.
\<close>
theorem transaction_usd_years_capped_at_2014:
  "(sum_transactions_by_type_by_year e a = Inr buckets \<longrightarrow>
      sum_transactions_by_type_by_year_usd e a =
        usd_types (\<lambda>year. year) (currency_values e) (cap_years buckets) [])
   \<and> (2014 < year \<longrightarrow>
        usd_years year_capped_at_2014 cv type_code (Some c) [(year, v)] out =
          (case get_USD_value cv c v 2014 of
             Inl err \<Rightarrow> Inl err
           | Inr usd \<Rightarrow> add_to_bucket type_code (Some ''USD'') 2014 usd out))
   \<and> (cv c = Some rates \<and> rates year = None \<longrightarrow> get_USD_value cv c v year = Inr (Dec 0))"
  by (auto simp: sum_transactions_by_type_by_year_usd_def usd_types_capped
        year_capped_at_2014_def get_USD_value_def usd_value_attempt_def
        split: sum.splits)

lemma late_activity_sums:
  "sum_transactions_by_type_by_year example_env late_activity =
     Inr [(Some ''3'', [(Some ''EUR'', [(2015, Dec 100)])])]"
  by code_simp

lemma late_activity_usd:
  "usd_types (\<lambda>year. year) (currency_values example_env)
     (cap_years [(Some ''3'', [(Some ''EUR'', [(2015, Dec 100)])])]) []
   = Inr [(Some ''3'', [(Some ''USD'', [(2014, Dec 200)])])]"
  by code_simp

lemma example_rates:
  "currency_values example_env ''EUR'' = Some [2014 \<mapsto> Flt (1 / 2)]"
  by (simp add: example_env_def)

theorem transaction_usd_years_capped_at_2014_witness:
  "sum_transactions_by_type_by_year example_env late_activity =
     Inr [(Some ''3'', [(Some ''EUR'', [(2015, Dec 100)])])]
   \<and> sum_transactions_by_type_by_year_usd example_env late_activity =
       Inr [(Some ''3'', [(Some ''USD'', [(2014, Dec 200)])])]
   \<and> currency_values example_env ''EUR'' = Some [2014 \<mapsto> Flt (1 / 2)]
   \<and> [2014 \<mapsto> Flt (1 / 2)] (2015 :: int) = None
   \<and> get_USD_value (currency_values example_env) ''EUR'' (Dec 100) 2015 = Inr (Dec 0)"
  using transaction_usd_years_capped_at_2014
          [of example_env late_activity "[(Some ''3'', [(Some ''EUR'', [(2015, Dec 100)])])]"
              2015 "currency_values example_env" None "''EUR''" "Dec 100" "[]"
              "[2014 \<mapsto> Flt (1 / 2)]"]
    late_activity_sums late_activity_usd example_rates
  by simp

text \<open>
  Claim C7 as stated fails: the example table covers the euro up to 2014, where 100 euros
  convert to 200 dollars, and the conversion of 100 euros for 2015 is zero.
\<close>
theorem get_USD_value_year_beyond_table_is_zero:
  "currency_values example_env ''EUR'' = Some [2014 \<mapsto> Flt (1 / 2)]
   \<and> get_USD_value (currency_values example_env) ''EUR'' (Dec 100) 2014 = Inr (Dec 200)
   \<and> get_USD_value (currency_values example_env) ''EUR'' (Dec 100) 2015 = Inr (Dec 0)"
proof -
  have "get_USD_value (currency_values example_env) ''EUR'' (Dec 100) 2014 = Inr (Dec 200)"
    by code_simp
  moreover
  have "get_USD_value (currency_values example_env) ''EUR'' (Dec 100) 2015 = Inr (Dec 0)"
    by code_simp
  ultimately show ?thesis using example_rates by simp
qed

section \<open>Properties of the roll-ups in the source currency\<close>













end
